theory Spec2Isabelle
  imports Main
begin

section \<open>The parsed document (BeautifulSoup objects)\<close>

text \<open>
  A parsed document is a tree of tags and strings. A tag carries its name, its attribute
  dictionary (an association list with distinct keys, read with \<open>map_of\<close>) and its
  children in document order. The \<open>BeautifulSoup\<close> object returned by the parser is
  itself a tag (named \<open>[document]\<close>) whose children are the top-level nodes.
\<close>

datatype xml =
    Tag (tag_name: string) (attrs: "(string \<times> string) list") (contents: "xml list")
  | NavigableString string

text \<open>\<open>tag.descendants\<close>: every node below the tag, in document (pre-)order.\<close>

fun descendants :: "xml \<Rightarrow> xml list" where
  "descendants (Tag n a cs) = concat (map (\<lambda>c. c # descendants c) cs)"
| "descendants (NavigableString s) = []"

fun is_tag_named :: "string \<Rightarrow> xml \<Rightarrow> bool" where
  "is_tag_named nm (Tag n a cs) = (n = nm)"
| "is_tag_named nm (NavigableString s) = False"

text \<open>\<open>tag.find_all(name)\<close>: all descendant tags of that name, in document order.\<close>

definition find_all :: "string \<Rightarrow> xml \<Rightarrow> xml list" where
  "find_all nm t = filter (is_tag_named nm) (descendants t)"

text \<open>\<open>tag.find(name)\<close>: the first such tag, or \<open>None\<close>.\<close>

definition find_tag :: "string \<Rightarrow> xml \<Rightarrow> xml option" where
  "find_tag nm t = (case find_all nm t of [] \<Rightarrow> None | x # _ \<Rightarrow> Some x)"

text \<open>\<open>tag.get(key)\<close>: the attribute's value, or \<open>None\<close> when the tag has no such attribute.\<close>

definition tag_get :: "xml \<Rightarrow> string \<Rightarrow> string option" where
  "tag_get t key = (case t of Tag n a cs \<Rightarrow> map_of a key | NavigableString s \<Rightarrow> None)"

text \<open>\<open>tag.text\<close>: all strings below the tag, concatenated.\<close>

fun get_text :: "xml \<Rightarrow> string" where
  "get_text (Tag n a cs) = concat (map get_text cs)"
| "get_text (NavigableString s) = s"

section \<open>The record flattener (\<open>write_data_to_csv\<close>)\<close>

text \<open>
  A row is the list handed to \<open>writer.writerow\<close>: each field is a string or \<open>None\<close>
  (which the csv module writes as an empty field). The writer is modelled by the rows
  written so far.
\<close>

type_synonym field = "string option"
type_synonym row = "field list"
type_synonym writer = "row list"

definition writerow :: "writer \<Rightarrow> row \<Rightarrow> writer" where
  "writerow w r = w @ [r]"

text \<open>The body of the \<open>for mark in marks\<close> loop (source lines 97 to 117).\<close>

definition write_mark :: "writer \<Rightarrow> xml \<Rightarrow> xml \<Rightarrow> writer" where
  "write_mark w course mark =
     (let course_title = tag_get course ''Title'';
          course_room = tag_get course ''Room'';
          course_staff = tag_get course ''Staff'';
          course_period = tag_get course ''Period'';
          mark_name = tag_get mark ''MarkName'';
          calculated_score = tag_get mark ''CalculatedScoreString'';
          assignments = find_all ''Assignment'' mark
      in if assignments = [] then
           writerow w
             [mark_name, course_title, course_room, course_staff, course_period,
              calculated_score, mark_name,
              Some ''N/A'', Some ''N/A'', Some ''N/A'', Some ''N/A'', Some ''N/A'',
              Some ''N/A'', Some ''N/A'']
         else
           foldl (\<lambda>w assignment. writerow w
             [mark_name, course_title, course_room, course_staff, course_period,
              calculated_score, mark_name,
              tag_get assignment ''Measure'', tag_get assignment ''Type'',
              tag_get assignment ''Date'', tag_get assignment ''DueDate'',
              tag_get assignment ''Score'', tag_get assignment ''Points'',
              tag_get assignment ''Notes'']) w assignments)"

text \<open>The body of the \<open>for course in courses\<close> loop, and the whole function.\<close>

definition write_course :: "writer \<Rightarrow> xml \<Rightarrow> writer" where
  "write_course w course = foldl (\<lambda>w mark. write_mark w course mark) w (find_all ''Mark'' course)"

definition write_data_to_csv :: "writer \<Rightarrow> xml \<Rightarrow> writer" where
  "write_data_to_csv w gradebook_soup = foldl write_course w (find_all ''Course'' gradebook_soup)"

section \<open>Exceptions, messages and the outside world\<close>

text \<open>
  The exceptions the script can meet. \<open>ConnectionError\<close> (any transport failure of
  \<open>session.post\<close>) and \<open>HTTPError\<close> (from \<open>raise_for_status\<close>) are subclasses of
  \<open>requests.exceptions.RequestException\<close>, which itself derives from \<open>IOError\<close>.
  \<open>UnicodeEncodeError\<close> is what \<open>str.encode\<close> raises, \<open>ParserRejectedMarkup\<close> what
  \<open>BeautifulSoup(_, 'lxml-xml')\<close> raises on markup the parser refuses, \<open>AttributeError\<close>
  what \<open>None.text\<close> raises, \<open>IOError\<close> (\<open>OSError\<close>) what \<open>open\<close> and a write to the file
  raise, and \<open>EOFError\<close> what \<open>input\<close> and \<open>getpass\<close> raise when no input is available.
  All of them derive from \<open>Exception\<close>.
\<close>

datatype exn =
    ConnectionError string
  | HTTPError nat
  | UnicodeEncodeError
  | ParserRejectedMarkup
  | AttributeError
  | IOError string
  | EOFError

fun is_RequestException :: "exn \<Rightarrow> bool" where
  "is_RequestException (ConnectionError msg) = True"
| "is_RequestException (HTTPError status) = True"
| "is_RequestException e = False"

fun is_IOError :: "exn \<Rightarrow> bool" where
  "is_IOError (IOError msg) = True"
| "is_IOError e = is_RequestException e"

text \<open>
  What the script prints, one constructor per \<open>print\<close> call of the source:
  \<^item> \<open>Banner\<close>: "--- StudentVUE Grade Exporter ---"
  \<^item> \<open>CredentialsLoaded\<close>: "Credentials successfully loaded from .env file."
  \<^item> \<open>NoEnvFile\<close>: "No .env file detected. Please provide your credentials."
  \<^item> \<open>Requesting n\<close>: "Requesting data for reporting period n..."
  \<^item> \<open>ServerReturnedError n\<close>: "-> Server returned an error for period n. ..."
  \<^item> \<open>Retrieved n\<close>: "-> Successfully retrieved data for period n."
  \<^item> \<open>NetworkError n e\<close>: "-> A network error occurred for period n: e"
  \<^item> \<open>ExportComplete\<close>: "Export complete. All available data has been saved to 'grades.csv'"
  \<^item> \<open>CriticalFileError e\<close>: "A critical file error occurred: Could not write to grades.csv. Details: e"
  \<^item> \<open>UnexpectedError e\<close>: "An unexpected critical error occurred: e"
\<close>

datatype message =
    Banner
  | CredentialsLoaded
  | NoEnvFile
  | Requesting nat
  | ServerReturnedError nat
  | Retrieved nat
  | NetworkError nat exn
  | ExportComplete
  | CriticalFileError exn
  | UnexpectedError exn

text \<open>
  The observable actions of a run, in order: a printed message, the two prompts
  (\<open>input\<close> and \<open>getpass.getpass\<close>), a POST of the envelope built from username, password
  and period, and the pause after each period.
\<close>

datatype event =
    Print message
  | Input
  | Getpass
  | Post string string nat
  | Sleep

text \<open>The outcome of \<open>session.post\<close>: a transport failure, or a response.\<close>

datatype post_result =
    TransportFailure string
  | Response nat string

text \<open>
  Everything outside the script: the two environment variables (after \<open>load_dotenv\<close>),
  what the two prompts return (\<open>None\<close>: no input available), which strings encode to
  UTF-8 (a Python string with a lone surrogate, as \<open>os.getenv\<close> gives for undecodable
  bytes, does not), the server's answer to the envelope for a username, a password and a
  period, the \<open>lxml-xml\<close> parser behind \<open>BeautifulSoup(_, 'lxml-xml')\<close> (\<open>None\<close>: it
  refuses the markup), whether \<open>open\<close> fails (and with which message), whether writing
  fails (\<open>Some (capacity, message)\<close>: the file takes \<open>capacity\<close> rows, and the write of
  any further row raises \<open>OSError\<close> with that message), and the content of \<open>grades.csv\<close>
  before the run (\<open>None\<close>: no such file).
\<close>

record world =
  getenv_username :: "string option"
  getenv_password :: "string option"
  stdin_username :: "string option"
  stdin_password :: "string option"
  utf8_encodable :: "string \<Rightarrow> bool"
  server :: "string \<Rightarrow> string \<Rightarrow> nat \<Rightarrow> post_result"
  parser :: "string \<Rightarrow> xml option"
  open_error :: "string option"
  write_error :: "(nat \<times> string) option"
  old_file :: "writer option"

section \<open>The credential provider (\<open>get_credentials\<close>)\<close>

text \<open>Python's truth value of \<open>os.getenv\<close>'s result: neither \<open>None\<close> nor empty.\<close>

fun truthy :: "string option \<Rightarrow> bool" where
  "truthy None = False"
| "truthy (Some s) = (s \<noteq> [])"

text \<open>The \<open>else\<close> branch: the two prompts, the second only if the first returned.\<close>

definition prompt_credentials :: "world \<Rightarrow> event list \<times> (exn + string \<times> string)" where
  "prompt_credentials wd =
     (case stdin_username wd of
        None \<Rightarrow> ([Print NoEnvFile, Input], Inl EOFError)
      | Some username \<Rightarrow>
          (case stdin_password wd of
             None \<Rightarrow> ([Print NoEnvFile, Input, Getpass], Inl EOFError)
           | Some password \<Rightarrow> ([Print NoEnvFile, Input, Getpass], Inr (username, password))))"

definition get_credentials :: "world \<Rightarrow> event list \<times> (exn + string \<times> string)" where
  "get_credentials wd =
     (case (getenv_username wd, getenv_password wd) of
        (Some username, Some password) \<Rightarrow>
          if truthy (Some username) \<and> truthy (Some password)
          then ([Print CredentialsLoaded], Inr (username, password))
          else prompt_credentials wd
      | _ \<Rightarrow> prompt_credentials wd)"

section \<open>The gradebook fetcher (\<open>fetch_gradebook_data\<close>)\<close>

text \<open>\<open>sub in s\<close> on Python strings: \<open>sub\<close> occurs in \<open>s\<close> as a contiguous substring.\<close>

fun str_contains :: "string \<Rightarrow> string \<Rightarrow> bool" where
  "str_contains sub [] = (sub = [])"
| "str_contains sub (c # cs) = (take (length sub) (c # cs) = sub \<or> str_contains sub cs)"

text \<open>\<open>response.raise_for_status()\<close>: raises for the 4xx and 5xx status codes.\<close>

definition raise_for_status :: "nat \<Rightarrow> exn + unit" where
  "raise_for_status status =
     (if 400 \<le> status \<and> status < 600 then Inl (HTTPError status) else Inr ())"

text \<open>
  \<open>BeautifulSoup(markup, 'lxml-xml')\<close>: the parsed document, or \<open>ParserRejectedMarkup\<close>.
\<close>

definition BeautifulSoup :: "world \<Rightarrow> string \<Rightarrow> exn + xml" where
  "BeautifulSoup wd markup =
     (case parser wd markup of None \<Rightarrow> Inl ParserRejectedMarkup | Some soup \<Rightarrow> Inr soup)"

text \<open>
  The \<open>try\<close> block (source lines 67 to 78): its events, and its result or exception.
  The request body is the fixed ASCII template around the username, the password and the
  period, so \<open>xml_request_body.encode('utf-8')\<close> raises exactly when one of the two
  strings does not encode; it is evaluated before the POST is made. The message that the
  data was retrieved is printed before the payload is parsed.
\<close>

definition fetch_try :: "world \<Rightarrow> string \<Rightarrow> string \<Rightarrow> nat \<Rightarrow> event list \<times> (exn + xml option)" where
  "fetch_try wd username password period =
     (if \<not> (utf8_encodable wd username \<and> utf8_encodable wd password)
      then ([], Inl UnicodeEncodeError)
      else
       (case server wd username password period of
          TransportFailure msg \<Rightarrow> ([Post username password period], Inl (ConnectionError msg))
        | Response status content \<Rightarrow>
            (case raise_for_status status of
               Inl e \<Rightarrow> ([Post username password period], Inl e)
             | Inr _ \<Rightarrow>
                 (case BeautifulSoup wd content of
                    Inl e \<Rightarrow> ([Post username password period], Inl e)
                  | Inr soup \<Rightarrow>
                      (case find_tag ''ProcessWebServiceRequestResult'' soup of
                         None \<Rightarrow> ([Post username password period], Inl AttributeError)
                       | Some result \<Rightarrow>
                           (let gradebook_xml_content = get_text result
                            in if str_contains ''ERROR'' gradebook_xml_content
                               then ([Post username password period,
                                      Print (ServerReturnedError (period + 1))], Inr None)
                               else
                                (case BeautifulSoup wd gradebook_xml_content of
                                   Inl e \<Rightarrow>
                                     ([Post username password period,
                                       Print (Retrieved (period + 1))], Inl e)
                                 | Inr gradebook_soup \<Rightarrow>
                                     ([Post username password period,
                                       Print (Retrieved (period + 1))],
                                      Inr (Some gradebook_soup)))))))))"

text \<open>
  The whole function: the first message, the \<open>try\<close> block, and the handler
  \<open>except requests.exceptions.RequestException\<close>, which lets every other exception through.
\<close>

definition fetch_gradebook_data ::
    "world \<Rightarrow> string \<Rightarrow> string \<Rightarrow> nat \<Rightarrow> event list \<times> (exn + xml option)" where
  "fetch_gradebook_data wd username password period =
     (case fetch_try wd username password period of
        (evs, Inr soup) \<Rightarrow> (Print (Requesting (period + 1)) # evs, Inr soup)
      | (evs, Inl e) \<Rightarrow>
          if is_RequestException e
          then (Print (Requesting (period + 1)) # evs @ [Print (NetworkError (period + 1) e)],
                Inr None)
          else (Print (Requesting (period + 1)) # evs, Inl e))"

section \<open>The export driver (\<open>main\<close>)\<close>

definition REPORTING_PERIODS :: nat where
  "REPORTING_PERIODS = 4"

definition csv_header :: row where
  "csv_header =
     [Some ''Quarter'', Some ''Course Title'', Some ''Room'', Some ''Teacher'', Some ''Period'',
      Some ''Overall Score'', Some ''Mark'', Some ''Assignment'', Some ''Type'',
      Some ''Date Assigned'', Some ''Date Due'', Some ''Score'', Some ''Points'', Some ''Notes'']"

text \<open>
  The file behind the csv writer. \<open>write_data_to_csv\<close> above gives the rows handed to
  \<open>writer.writerow\<close>, in order, and does nothing else; here they reach the file. A write
  raises \<open>OSError\<close> once the file has taken all the rows it can, and the exception leaves
  \<open>writerow\<close>, the flattener and the loop around it at that row: the rows before it are
  in the file, the rows after it are never written.
\<close>

definition file_writerow :: "world \<Rightarrow> writer \<Rightarrow> row \<Rightarrow> exn + writer" where
  "file_writerow wd f r =
     (case write_error wd of
        None \<Rightarrow> Inr (writerow f r)
      | Some (capacity, msg) \<Rightarrow>
          if capacity \<le> length f then Inl (IOError msg) else Inr (writerow f r))"

fun file_writerows :: "world \<Rightarrow> writer \<Rightarrow> row list \<Rightarrow> writer \<times> exn option" where
  "file_writerows wd f [] = (f, None)"
| "file_writerows wd f (r # rs) =
     (case file_writerow wd f r of
        Inl e \<Rightarrow> (f, Some e)
      | Inr f' \<Rightarrow> file_writerows wd f' rs)"

text \<open>
  The \<open>for period in range(REPORTING_PERIODS)\<close> loop over the events so far and the
  file. An exception of the fetch or of a write ends the loop and is returned with the
  state reached. A \<open>BeautifulSoup\<close> object is always true (\<open>Tag.__bool__\<close>), so
  \<open>if gradebook_soup\<close> tests for \<open>None\<close> only.
\<close>

fun period_loop ::
    "world \<Rightarrow> string \<Rightarrow> string \<Rightarrow> nat list \<Rightarrow> event list \<times> writer \<Rightarrow> (event list \<times> writer) \<times> exn option" where
  "period_loop wd username password [] st = (st, None)"
| "period_loop wd username password (period # rest) (evs, w) =
     (case fetch_gradebook_data wd username password period of
        (fev, Inl e) \<Rightarrow> ((evs @ fev, w), Some e)
      | (fev, Inr None) \<Rightarrow> period_loop wd username password rest (evs @ fev @ [Sleep], w)
      | (fev, Inr (Some gradebook_soup)) \<Rightarrow>
          (case file_writerows wd w (write_data_to_csv [] gradebook_soup) of
             (w', Some e) \<Rightarrow> ((evs @ fev, w'), Some e)
           | (w', None) \<Rightarrow> period_loop wd username password rest (evs @ fev @ [Sleep], w')))"

text \<open>The two handlers of \<open>main\<close>: \<open>except IOError\<close> first, then \<open>except Exception\<close>.\<close>

definition handle_main :: "exn \<Rightarrow> message" where
  "handle_main e = (if is_IOError e then CriticalFileError e else UnexpectedError e)"

text \<open>
  The result of a run: what happened, the content of \<open>grades.csv\<close> afterwards, and the
  exception that left \<open>main\<close> uncaught, if any (the interpreter then prints a traceback).
\<close>

record run =
  events :: "event list"
  grades_csv :: "writer option"
  uncaught :: "exn option"

text \<open>
  The \<open>try\<close> block of \<open>main\<close> (source lines 134 to 146), from the events so far: the
  events and the file it leaves, and the exception it ends with, if any.
  \<open>open(_, "w")\<close> either fails and leaves the file as it was, or truncates it: the file
  starts empty. Leaving the \<open>with\<close> block closes the file, also on an exception, so the
  rows written are kept.
\<close>

definition main_try ::
    "world \<Rightarrow> string \<Rightarrow> string \<Rightarrow> event list \<Rightarrow> (event list \<times> writer option) \<times> exn option" where
  "main_try wd username password evs =
     (case open_error wd of
        Some msg \<Rightarrow> ((evs, old_file wd), Some (IOError msg))
      | None \<Rightarrow>
          (case file_writerow wd [] csv_header of
             Inl e \<Rightarrow> ((evs, Some []), Some e)
           | Inr w \<Rightarrow>
               (case period_loop wd username password [0..<REPORTING_PERIODS] (evs, w) of
                  ((evs', w'), Some e) \<Rightarrow> ((evs', Some w'), Some e)
                | ((evs', w'), None) \<Rightarrow> ((evs' @ [Print ExportComplete], Some w'), None))))"

text \<open>
  \<open>get_credentials\<close> is called before the \<open>try\<close> statement, so its exception leaves
  \<open>main\<close>. An exception of the \<open>try\<close> block goes to the handlers.
\<close>

definition main :: "world \<Rightarrow> run" where
  "main wd =
     (case get_credentials wd of
        (cev, Inl e) \<Rightarrow> \<lparr>events = Print Banner # cev, grades_csv = old_file wd, uncaught = Some e\<rparr>
      | (cev, Inr (username, password)) \<Rightarrow>
          (case main_try wd username password (Print Banner # cev) of
             ((evs, f), Some e) \<Rightarrow>
               \<lparr>events = evs @ [Print (handle_main e)], grades_csv = f, uncaught = None\<rparr>
           | ((evs, f), None) \<Rightarrow> \<lparr>events = evs, grades_csv = f, uncaught = None\<rparr>))"

section \<open>Iterations of the flattener\<close>

text \<open>
  The (course, mark) pairs the two outer loops go through, in order, and the rows one
  iteration writes into an empty writer.
\<close>

definition visits :: "xml \<Rightarrow> (xml \<times> xml) list" where
  "visits gradebook_soup =
     concat (map (\<lambda>course. map (Pair course) (find_all ''Mark'' course))
                 (find_all ''Course'' gradebook_soup))"

definition mark_rows :: "xml \<times> xml \<Rightarrow> row list" where
  "mark_rows v = write_mark [] (fst v) (snd v)"

text \<open>The seven fields every row of one iteration starts with.\<close>

definition shared_fields :: "xml \<Rightarrow> xml \<Rightarrow> row" where
  "shared_fields course mark =
     [tag_get mark ''MarkName'', tag_get course ''Title'', tag_get course ''Room'',
      tag_get course ''Staff'', tag_get course ''Period'',
      tag_get mark ''CalculatedScoreString'', tag_get mark ''MarkName'']"

definition assignment_fields :: "xml \<Rightarrow> row" where
  "assignment_fields assignment =
     [tag_get assignment ''Measure'', tag_get assignment ''Type'',
      tag_get assignment ''Date'', tag_get assignment ''DueDate'',
      tag_get assignment ''Score'', tag_get assignment ''Points'',
      tag_get assignment ''Notes'']"

text \<open>
  The rows one period hands to the writer: those of its document, if the fetch returned
  one.
\<close>

definition period_rows :: "world \<Rightarrow> string \<Rightarrow> string \<Rightarrow> nat \<Rightarrow> row list" where
  "period_rows wd username password period =
     (case snd (fetch_gradebook_data wd username password period) of
        Inr (Some gradebook_soup) \<Rightarrow> write_data_to_csv [] gradebook_soup
      | _ \<Rightarrow> [])"

section \<open>The shape of a gradebook document\<close>

text \<open>
  The data model of the specification: a gradebook document contains courses, a course
  contains marks, a mark contains assignments. On the parsed tree: no course lies inside
  a course and no mark inside a mark (\<open>no_nested\<close>), every mark lies inside a course and
  every assignment inside a mark (\<open>all_within\<close>). Wrapper elements between the levels are
  allowed.
\<close>

fun all_within :: "string \<Rightarrow> string \<Rightarrow> xml \<Rightarrow> bool" where
  "all_within outer inner (Tag n a cs) =
     (\<forall>c \<in> set cs. is_tag_named outer c \<or> (\<not> is_tag_named inner c \<and> all_within outer inner c))"
| "all_within outer inner (NavigableString s) = True"

definition no_nested :: "string \<Rightarrow> xml \<Rightarrow> bool" where
  "no_nested nm t = (\<forall>e \<in> set (find_all nm t). find_all nm e = [])"

definition gradebook_shaped :: "xml \<Rightarrow> bool" where
  "gradebook_shaped gradebook_soup =
     (no_nested ''Course'' gradebook_soup \<and> all_within ''Course'' ''Mark'' gradebook_soup \<and>
      no_nested ''Mark'' gradebook_soup \<and> all_within ''Mark'' ''Assignment'' gradebook_soup)"

section \<open>Example inputs\<close>

text \<open>
  A document with one course and two marks, the first with one assignment (without dates
  and notes), the second with none and without a calculated score.
\<close>

definition example_assignment :: xml where
  "example_assignment =
     Tag ''Assignment''
       [(''Measure'', ''HW1''), (''Type'', ''Homework''), (''Score'', ''10/10''),
        (''Points'', ''10'')] []"

definition example_mark :: xml where
  "example_mark =
     Tag ''Mark'' [(''MarkName'', ''Q1''), (''CalculatedScoreString'', ''95%'')]
       [Tag ''Assignments'' [] [example_assignment]]"

definition example_empty_mark :: xml where
  "example_empty_mark = Tag ''Mark'' [(''MarkName'', ''Q2'')] [Tag ''Assignments'' [] []]"

definition example_course :: xml where
  "example_course =
     Tag ''Course''
       [(''Title'', ''Algebra''), (''Room'', ''12''), (''Staff'', ''Smith''), (''Period'', ''3'')]
       [Tag ''Marks'' [] [example_mark, example_empty_mark]]"

definition example_soup :: xml where
  "example_soup = Tag ''[document]'' [] [Tag ''Gradebook'' [] [Tag ''Courses'' [] [example_course]]]"

text \<open>
  A parser that knows three inputs: a response envelope whose result holds the gradebook,
  one whose result holds the server's error element, and the gradebook itself. Anything
  else gives the empty document.
\<close>

definition example_parser :: "string \<Rightarrow> xml option" where
  "example_parser s =
     (if s = ''envelope'' then
        Some (Tag ''[document]'' []
          [Tag ''Envelope'' []
             [Tag ''ProcessWebServiceRequestResult'' [] [NavigableString ''gradebook'']]])
      else if s = ''error envelope'' then
        Some (Tag ''[document]'' []
          [Tag ''Envelope'' []
             [Tag ''ProcessWebServiceRequestResult'' [] [NavigableString ''<RT_ERROR/>'']]])
      else if s = ''gradebook'' then Some example_soup
      else Some (Tag ''[document]'' [] []))"

text \<open>
  A server that answers period 0 with the gradebook, fails to connect for period 1,
  answers period 2 with status 503 and period 3 with its error element.
\<close>

definition example_server :: "string \<Rightarrow> string \<Rightarrow> nat \<Rightarrow> post_result" where
  "example_server username password period =
     (if period = 0 then Response 200 ''envelope''
      else if period = 1 then TransportFailure ''timed out''
      else if period = 2 then Response 503 ''unavailable''
      else Response 200 ''error envelope'')"

definition example_world :: world where
  "example_world =
     \<lparr>getenv_username = Some ''student'', getenv_password = Some ''secret'',
      stdin_username = None, stdin_password = None, utf8_encodable = (\<lambda>s. True),
      server = example_server, parser = example_parser,
      open_error = None, write_error = None, old_file = Some [[Some ''old row'']]\<rparr>"

text \<open>The same with a server nobody reaches.\<close>

definition offline_world :: world where
  "offline_world =
     example_world\<lparr>server := \<lambda>username password period. TransportFailure ''unreachable''\<rparr>"

text \<open>
  The same with a server that answers period 0 with status 200 and a page that is no
  response envelope, and every other period with the gradebook.
\<close>

definition html_world :: world where
  "html_world =
     example_world\<lparr>server := \<lambda>username password period.
        if period = 0 then Response 200 ''<html/>'' else Response 200 ''envelope''\<rparr>"


text \<open>An empty password in the environment, and a user who types both values.\<close>

definition prompt_world :: world where
  "prompt_world =
     example_world\<lparr>getenv_password := Some [], stdin_username := Some ''typed'',
                    stdin_password := Some ''hidden''\<rparr>"


text \<open>The same with a file that takes the header row and no more.\<close>

definition full_disk_world :: world where
  "full_disk_world = example_world\<lparr>write_error := Some (1, ''No space left on device'')\<rparr>"

text \<open>
  The same with a server whose four answers all fail: no connection for period 0, status
  503 for period 1, the error element for period 2, and for period 3 status 200 with a
  page that is no response envelope.
\<close>

definition four_fail_world :: world where
  "four_fail_world =
     example_world\<lparr>server := \<lambda>username password period.
        if period = 0 then TransportFailure ''timed out''
        else if period = 1 then Response 503 ''unavailable''
        else if period = 2 then Response 200 ''error envelope''
        else Response 200 ''<html/>''\<rparr>"

section \<open>Properties of the flattener\<close>

lemma foldl_writerow: "foldl (\<lambda>w x. writerow w (f x)) w xs = w @ map f xs"
  by (induction xs arbitrary: w) (simp_all add: writerow_def)

lemma replicate_seven: "replicate 7 x = [x, x, x, x, x, x, x]"
  by (simp add: numeral_eq_Suc)

lemma write_mark_rows:
  "write_mark w course mark =
     w @ (if find_all ''Assignment'' mark = []
          then [shared_fields course mark @ replicate 7 (Some ''N/A'')]
          else map (\<lambda>a. shared_fields course mark @ assignment_fields a)
                   (find_all ''Assignment'' mark))"
proof (cases "find_all ''Assignment'' mark = []")
  case True
  then show ?thesis
    by (simp add: write_mark_def Let_def writerow_def shared_fields_def replicate_seven)
next
  case False
  then show ?thesis
    by (simp add: write_mark_def Let_def foldl_writerow shared_fields_def assignment_fields_def)
qed

lemma write_mark_append: "write_mark w course mark = w @ mark_rows (course, mark)"
  by (simp add: mark_rows_def write_mark_rows)

lemma foldl_write_mark:
  "foldl (\<lambda>w mark. write_mark w course mark) w ms = w @ concat (map (\<lambda>m. mark_rows (course, m)) ms)"
proof (induction ms arbitrary: w)
  case Nil
  show ?case by simp
next
  case (Cons m ms)
  have "foldl (\<lambda>w mark. write_mark w course mark) w (m # ms) =
        foldl (\<lambda>w mark. write_mark w course mark) (w @ mark_rows (course, m)) ms"
    by (simp add: write_mark_append)
  also have "\<dots> = (w @ mark_rows (course, m)) @ concat (map (\<lambda>m. mark_rows (course, m)) ms)"
    by (rule Cons.IH)
  finally show ?case by simp
qed

lemma write_course_append:
  "write_course w course =
     w @ concat (map mark_rows (map (Pair course) (find_all ''Mark'' course)))"
  by (simp add: write_course_def foldl_write_mark comp_def)

lemma foldl_write_course:
  "foldl write_course w cs =
     w @ concat (map mark_rows (concat (map (\<lambda>c. map (Pair c) (find_all ''Mark'' c)) cs)))"
proof (induction cs arbitrary: w)
  case Nil
  show ?case by simp
next
  case (Cons c cs)
  let ?rest = "concat (map mark_rows (concat (map (\<lambda>c. map (Pair c) (find_all ''Mark'' c)) cs)))"
  let ?here = "concat (map mark_rows (map (Pair c) (find_all ''Mark'' c)))"
  have "foldl write_course w (c # cs) = foldl write_course (write_course w c) cs"
    by simp
  also have "\<dots> = write_course w c @ ?rest"
    by (rule Cons.IH)
  also have "\<dots> = (w @ ?here) @ ?rest"
    by (simp only: write_course_append)
  also have "\<dots> =
      w @ concat (map mark_rows (concat (map (\<lambda>c. map (Pair c) (find_all ''Mark'' c)) (c # cs))))"
    by simp
  finally show ?case .
qed

lemma write_data_to_csv_visits:
  "write_data_to_csv w gradebook_soup = w @ concat (map mark_rows (visits gradebook_soup))"
  by (simp add: write_data_to_csv_def visits_def foldl_write_course)

section \<open>Documents of the gradebook shape\<close>

lemma find_all_Tag:
  "find_all nm (Tag n a cs) =
     concat (map (\<lambda>c. (if is_tag_named nm c then [c] else []) @ find_all nm c) cs)"
  by (induction cs) (simp_all add: find_all_def)

lemma named_differently:
  "is_tag_named outer c \<Longrightarrow> outer \<noteq> inner \<Longrightarrow> \<not> is_tag_named inner c"
  by (cases c) auto

lemma find_all_child:
  assumes "c \<in> set cs"
  shows "set (find_all nm c) \<subseteq> set (find_all nm (Tag n a cs))"
    and "is_tag_named nm c \<Longrightarrow> c \<in> set (find_all nm (Tag n a cs))"
  using assms by (auto simp: find_all_Tag)

lemma no_nested_child:
  assumes "no_nested nm (Tag n a cs)" and "c \<in> set cs"
  shows "no_nested nm c" and "is_tag_named nm c \<Longrightarrow> find_all nm c = []"
  using assms find_all_child [of c cs nm n a] by (auto simp: no_nested_def)

lemma concat_map_concat:
  "concat (map f (concat (map g cs))) = concat (map (\<lambda>c. concat (map f (g c))) cs)"
  by (induction cs) simp_all

lemma find_all_through:
  assumes "outer \<noteq> inner"
  shows "no_nested outer t \<Longrightarrow> all_within outer inner t \<Longrightarrow>
         concat (map (find_all inner) (find_all outer t)) = find_all inner t"
proof (induction t)
  case (Tag n a cs)
  have each: "concat (map (find_all inner)
                 ((if is_tag_named outer c then [c] else []) @ find_all outer c)) =
              (if is_tag_named inner c then [c] else []) @ find_all inner c"
    if c: "c \<in> set cs" for c
  proof (cases "is_tag_named outer c")
    case True
    with no_nested_child(2) [OF Tag.prems(1) c] have "find_all outer c = []"
      by simp
    with True named_differently [OF True assms] show ?thesis
      by simp
  next
    case False
    with Tag.prems(2) c have "\<not> is_tag_named inner c" and "all_within outer inner c"
      by auto
    with False Tag.IH [OF c no_nested_child(1) [OF Tag.prems(1) c]] show ?thesis
      by simp
  qed
  have "concat (map (find_all inner) (find_all outer (Tag n a cs))) =
        concat (map (\<lambda>c. concat (map (find_all inner)
                 ((if is_tag_named outer c then [c] else []) @ find_all outer c))) cs)"
    by (simp only: find_all_Tag [of outer] concat_map_concat)
  also have "\<dots> =
        concat (map (\<lambda>c. (if is_tag_named inner c then [c] else []) @ find_all inner c) cs)"
    using each by (simp cong: map_cong)
  also have "\<dots> = find_all inner (Tag n a cs)"
    by (simp only: find_all_Tag)
  finally show ?case .
next
  case (NavigableString s)
  show ?case by (simp add: find_all_def)
qed

lemma visits_marks:
  "map snd (visits soup) = concat (map (find_all ''Mark'') (find_all ''Course'' soup))"
  by (simp add: visits_def map_concat comp_def)

lemma shaped_visits:
  assumes "gradebook_shaped soup"
  shows "map snd (visits soup) = find_all ''Mark'' soup"
    and "concat (map (find_all ''Assignment'') (find_all ''Mark'' soup)) =
         find_all ''Assignment'' soup"
proof -
  have "''Course'' \<noteq> ''Mark''" by simp
  from find_all_through [OF this] assms show "map snd (visits soup) = find_all ''Mark'' soup"
    by (simp add: visits_marks gradebook_shaped_def)
  have "''Mark'' \<noteq> ''Assignment''" by simp
  from find_all_through [OF this] assms
  show "concat (map (find_all ''Assignment'') (find_all ''Mark'' soup)) =
         find_all ''Assignment'' soup"
    by (simp add: gradebook_shaped_def)
qed

lemma length_mark_rows:
  "length (mark_rows (course, mark)) =
     (if find_all ''Assignment'' mark = [] then 1 else length (find_all ''Assignment'' mark))"
  by (simp add: mark_rows_def write_mark_rows)

lemma count_rows:
  "(\<Sum>m\<leftarrow>ms. if f m = [] then 1 else length (f m)) =
     length (concat (map f ms)) + length (filter (\<lambda>m. f m = []) ms)"
  by (induction ms) simp_all

lemma length_flattened:
  "length (write_data_to_csv [] soup) =
     length (concat (map (find_all ''Assignment'') (map snd (visits soup)))) +
     length (filter (\<lambda>m. find_all ''Assignment'' m = []) (map snd (visits soup)))"
proof -
  have "length (write_data_to_csv [] soup) = (\<Sum>v\<leftarrow>visits soup. length (mark_rows v))"
    by (simp add: write_data_to_csv_visits length_concat comp_def)
  also have "\<dots> = (\<Sum>m\<leftarrow>map snd (visits soup).
      if find_all ''Assignment'' m = [] then 1 else length (find_all ''Assignment'' m))"
  proof -
    have "length (mark_rows v) =
        (if find_all ''Assignment'' (snd v) = [] then 1 else length (find_all ''Assignment'' (snd v)))"
      for v using length_mark_rows [of "fst v" "snd v"] by simp
    then show ?thesis by (simp add: comp_def)
  qed
  finally show ?thesis
    by (simp only: count_rows)
qed

lemma visit_split:
  assumes "i < length (visits soup)"
  shows "write_data_to_csv w soup =
           w @ concat (map mark_rows (take i (visits soup))) @
           mark_rows (visits soup ! i) @
           concat (map mark_rows (drop (Suc i) (visits soup)))"
proof -
  have "visits soup = take i (visits soup) @ visits soup ! i # drop (Suc i) (visits soup)"
    using assms by (rule id_take_nth_drop)
  then have "concat (map mark_rows (visits soup)) =
      concat (map mark_rows (take i (visits soup) @ visits soup ! i # drop (Suc i) (visits soup)))"
    by simp
  then show ?thesis
    by (simp add: write_data_to_csv_visits)
qed

lemma mark_rows_cases:
  assumes "r \<in> set (mark_rows (course, mark))"
  shows "r = shared_fields course mark @ replicate 7 (Some ''N/A'') \<or>
         (\<exists>a \<in> set (find_all ''Assignment'' mark). r = shared_fields course mark @ assignment_fields a)"
  using assms by (auto simp: mark_rows_def write_mark_rows split: if_splits)

lemma example_find_courses: "find_all ''Course'' example_soup = [example_course]"
  by (simp add: find_all_def example_soup_def example_course_def example_mark_def
      example_empty_mark_def example_assignment_def)

lemma example_find_marks: "find_all ''Mark'' example_course = [example_mark, example_empty_mark]"
  by (simp add: find_all_def example_course_def example_mark_def
      example_empty_mark_def example_assignment_def)

lemma example_find_assignments:
  "find_all ''Assignment'' example_mark = [example_assignment]"
  "find_all ''Assignment'' example_empty_mark = []"
  by (simp_all add: find_all_def example_mark_def example_empty_mark_def example_assignment_def)

lemma example_visits:
  "visits example_soup = [(example_course, example_mark), (example_course, example_empty_mark)]"
  by (simp add: visits_def example_find_courses example_find_marks)

lemma example_shaped: "gradebook_shaped example_soup"
  by (simp add: gradebook_shaped_def no_nested_def find_all_def example_soup_def
      example_course_def example_mark_def example_empty_mark_def example_assignment_def)


lemma shared_fields_length [simp]: "length (shared_fields course mark) = 7"
  by (simp add: shared_fields_def)

lemma assignment_fields_length [simp]: "length (assignment_fields a) = 7"
  by (simp add: assignment_fields_def)

section \<open>Properties of the fetcher and of the period loop\<close>

lemma str_contains_iff: "str_contains sub s \<longleftrightarrow> (\<exists>p q. s = p @ sub @ q)"
proof (induction s)
  case Nil
  show ?case by auto
next
  case (Cons c cs)
  have pre: "take (length sub) (c # cs) = sub \<longleftrightarrow> (\<exists>q. c # cs = sub @ q)"
    by (metis append_eq_conv_conj)
  have "(\<exists>p q. c # cs = p @ sub @ q) \<longleftrightarrow> (\<exists>q. c # cs = sub @ q) \<or> (\<exists>p q. cs = p @ sub @ q)"
  proof
    assume "\<exists>p q. c # cs = p @ sub @ q"
    then obtain p q where pq: "c # cs = p @ sub @ q" by blast
    show "(\<exists>q. c # cs = sub @ q) \<or> (\<exists>p q. cs = p @ sub @ q)"
    proof (cases p)
      case Nil
      with pq show ?thesis by auto
    next
      case (Cons a p')
      with pq have "cs = p' @ sub @ q" by simp
      then show ?thesis by blast
    qed
  next
    assume "(\<exists>q. c # cs = sub @ q) \<or> (\<exists>p q. cs = p @ sub @ q)"
    then show "\<exists>p q. c # cs = p @ sub @ q"
    proof
      assume "\<exists>q. c # cs = sub @ q"
      then obtain q where "c # cs = [] @ sub @ q" by auto
      then show ?thesis by blast
    next
      assume "\<exists>p q. cs = p @ sub @ q"
      then obtain p q where "c # cs = (c # p) @ sub @ q" by auto
      then show ?thesis by blast
    qed
  qed
  with pre Cons.IH show ?case by simp
qed

lemma write_data_to_csv_append:
  "write_data_to_csv w soup = w @ write_data_to_csv [] soup"
  using write_data_to_csv_visits [of w soup] write_data_to_csv_visits [of "[]" soup] by simp

lemma fetch_unencodable:
  "\<not> (utf8_encodable wd u \<and> utf8_encodable wd p) \<Longrightarrow>
   fetch_gradebook_data wd u p period =
     ([Print (Requesting (period + 1))], Inl UnicodeEncodeError)"
  by (simp add: fetch_gradebook_data_def fetch_try_def)

lemma fetch_transport_failure:
  "utf8_encodable wd u \<Longrightarrow> utf8_encodable wd p \<Longrightarrow>
   server wd u p period = TransportFailure msg \<Longrightarrow>
   fetch_gradebook_data wd u p period =
     ([Print (Requesting (period + 1)), Post u p period,
       Print (NetworkError (period + 1) (ConnectionError msg))], Inr None)"
  by (simp add: fetch_gradebook_data_def fetch_try_def)

lemma fetch_http_error:
  "utf8_encodable wd u \<Longrightarrow> utf8_encodable wd p \<Longrightarrow>
   server wd u p period = Response status content \<Longrightarrow> 400 \<le> status \<Longrightarrow> status < 600 \<Longrightarrow>
   fetch_gradebook_data wd u p period =
     ([Print (Requesting (period + 1)), Post u p period,
       Print (NetworkError (period + 1) (HTTPError status))], Inr None)"
  by (simp add: fetch_gradebook_data_def fetch_try_def raise_for_status_def)

lemma fetch_rejected_response:
  "utf8_encodable wd u \<Longrightarrow> utf8_encodable wd p \<Longrightarrow>
   server wd u p period = Response status content \<Longrightarrow> \<not> (400 \<le> status \<and> status < 600) \<Longrightarrow>
   parser wd content = None \<Longrightarrow>
   fetch_gradebook_data wd u p period =
     ([Print (Requesting (period + 1)), Post u p period], Inl ParserRejectedMarkup)"
  by (simp add: fetch_gradebook_data_def fetch_try_def raise_for_status_def BeautifulSoup_def)

lemma fetch_missing_result:
  "utf8_encodable wd u \<Longrightarrow> utf8_encodable wd p \<Longrightarrow>
   server wd u p period = Response status content \<Longrightarrow> \<not> (400 \<le> status \<and> status < 600) \<Longrightarrow>
   parser wd content = Some soup \<Longrightarrow>
   find_tag ''ProcessWebServiceRequestResult'' soup = None \<Longrightarrow>
   fetch_gradebook_data wd u p period =
     ([Print (Requesting (period + 1)), Post u p period], Inl AttributeError)"
  by (simp add: fetch_gradebook_data_def fetch_try_def raise_for_status_def BeautifulSoup_def)

lemma fetch_error_marker:
  "utf8_encodable wd u \<Longrightarrow> utf8_encodable wd p \<Longrightarrow>
   server wd u p period = Response status content \<Longrightarrow> \<not> (400 \<le> status \<and> status < 600) \<Longrightarrow>
   parser wd content = Some soup \<Longrightarrow>
   find_tag ''ProcessWebServiceRequestResult'' soup = Some result \<Longrightarrow>
   str_contains ''ERROR'' (get_text result) \<Longrightarrow>
   fetch_gradebook_data wd u p period =
     ([Print (Requesting (period + 1)), Post u p period,
       Print (ServerReturnedError (period + 1))], Inr None)"
  by (simp add: fetch_gradebook_data_def fetch_try_def raise_for_status_def BeautifulSoup_def)

lemma fetch_rejected_payload:
  "utf8_encodable wd u \<Longrightarrow> utf8_encodable wd p \<Longrightarrow>
   server wd u p period = Response status content \<Longrightarrow> \<not> (400 \<le> status \<and> status < 600) \<Longrightarrow>
   parser wd content = Some soup \<Longrightarrow>
   find_tag ''ProcessWebServiceRequestResult'' soup = Some result \<Longrightarrow>
   \<not> str_contains ''ERROR'' (get_text result) \<Longrightarrow>
   parser wd (get_text result) = None \<Longrightarrow>
   fetch_gradebook_data wd u p period =
     ([Print (Requesting (period + 1)), Post u p period, Print (Retrieved (period + 1))],
      Inl ParserRejectedMarkup)"
  by (simp add: fetch_gradebook_data_def fetch_try_def raise_for_status_def BeautifulSoup_def)

lemma fetch_document:
  "utf8_encodable wd u \<Longrightarrow> utf8_encodable wd p \<Longrightarrow>
   server wd u p period = Response status content \<Longrightarrow> \<not> (400 \<le> status \<and> status < 600) \<Longrightarrow>
   parser wd content = Some soup \<Longrightarrow>
   find_tag ''ProcessWebServiceRequestResult'' soup = Some result \<Longrightarrow>
   \<not> str_contains ''ERROR'' (get_text result) \<Longrightarrow>
   parser wd (get_text result) = Some gradebook_soup \<Longrightarrow>
   fetch_gradebook_data wd u p period =
     ([Print (Requesting (period + 1)), Post u p period, Print (Retrieved (period + 1))],
      Inr (Some gradebook_soup))"
  by (simp add: fetch_gradebook_data_def fetch_try_def raise_for_status_def BeautifulSoup_def)



lemma file_writerows_no_error:
  "write_error wd = None \<Longrightarrow> file_writerows wd f rs = (f @ rs, None)"
  by (induction rs arbitrary: f) (simp_all add: file_writerow_def writerow_def)

lemma file_writerows_capacity:
  "write_error wd = Some (c, msg) \<Longrightarrow> length f \<le> c \<Longrightarrow>
   file_writerows wd f rs =
     (take c (f @ rs), if c < length f + length rs then Some (IOError msg) else None)"
proof (induction rs arbitrary: f)
  case Nil
  then show ?case by simp
next
  case (Cons r rs)
  show ?case
  proof (cases "c \<le> length f")
    case True
    with Cons.prems show ?thesis
      by (simp add: file_writerow_def)
  next
    case False
    then have len: "length (f @ [r]) \<le> c" by simp
    have "file_writerows wd f (r # rs) = file_writerows wd (f @ [r]) rs"
      using Cons.prems(1) False by (simp add: file_writerow_def writerow_def)
    also have "\<dots> =
        (take c ((f @ [r]) @ rs),
         if c < length (f @ [r]) + length rs then Some (IOError msg) else None)"
      by (rule Cons.IH [OF Cons.prems(1) len])
    also have "\<dots> =
        (take c (f @ r # rs),
         if c < length f + length (r # rs) then Some (IOError msg) else None)"
      by simp
    finally show ?thesis .
  qed
qed

lemma file_writerows_prefix: "\<exists>k. fst (file_writerows wd f rs) = f @ take k rs"
proof (induction rs arbitrary: f)
  case Nil
  show ?case by simp
next
  case (Cons r rs)
  show ?case
  proof (cases "file_writerow wd f r")
    case (Inl e)
    then have "fst (file_writerows wd f (r # rs)) = f @ take 0 (r # rs)" by simp
    then show ?thesis by blast
  next
    case (Inr f')
    then have f': "f' = f @ [r]"
      by (auto simp: file_writerow_def writerow_def split: option.splits if_splits)
    from Cons.IH [of f'] obtain k where "fst (file_writerows wd f' rs) = f' @ take k rs"
      by blast
    with Inr f' have "fst (file_writerows wd f (r # rs)) = f @ take (Suc k) (r # rs)"
      by simp
    then show ?thesis by blast
  qed
qed

lemma file_writerows_complete:
  "snd (file_writerows wd f rs) = None \<Longrightarrow> fst (file_writerows wd f rs) = f @ rs"
proof (induction rs arbitrary: f)
  case Nil
  show ?case by simp
next
  case (Cons r rs)
  show ?case
  proof (cases "file_writerow wd f r")
    case (Inl e)
    with Cons.prems show ?thesis by simp
  next
    case (Inr f')
    then have f': "f' = f @ [r]"
      by (auto simp: file_writerow_def writerow_def split: option.splits if_splits)
    with Inr Cons.prems Cons.IH [of f'] show ?thesis by simp
  qed
qed

lemma file_writerows_raises:
  "snd (file_writerows wd f rs) = Some e \<Longrightarrow>
   \<exists>c msg. write_error wd = Some (c, msg) \<and> e = IOError msg"
proof (induction rs arbitrary: f)
  case Nil
  then show ?case by simp
next
  case (Cons r rs)
  show ?case
  proof (cases "file_writerow wd f r")
    case (Inl e')
    with Cons.prems have "e' = e" by simp
    with Inl show ?thesis
      by (auto simp: file_writerow_def split: option.splits if_splits)
  next
    case (Inr f')
    with Cons.prems Cons.IH [of f'] show ?thesis by simp
  qed
qed

lemma period_loop_step_none:
  "snd (fetch_gradebook_data wd u p period) = Inr None \<Longrightarrow>
   period_loop wd u p (period # rest) (evs, w) =
     period_loop wd u p rest (evs @ fst (fetch_gradebook_data wd u p period) @ [Sleep], w)"
  by (cases "fetch_gradebook_data wd u p period") simp

lemma period_loop_step_some:
  "snd (fetch_gradebook_data wd u p period) = Inr (Some soup) \<Longrightarrow>
   period_loop wd u p (period # rest) (evs, w) =
     (case file_writerows wd w (write_data_to_csv [] soup) of
        (w', Some e) \<Rightarrow> ((evs @ fst (fetch_gradebook_data wd u p period), w'), Some e)
      | (w', None) \<Rightarrow>
          period_loop wd u p rest
            (evs @ fst (fetch_gradebook_data wd u p period) @ [Sleep], w'))"
  by (cases "fetch_gradebook_data wd u p period") simp

lemma period_loop_step_raise:
  "snd (fetch_gradebook_data wd u p period) = Inl e \<Longrightarrow>
   period_loop wd u p (period # rest) (evs, w) =
     ((evs @ fst (fetch_gradebook_data wd u p period), w), Some e)"
  by (cases "fetch_gradebook_data wd u p period") simp

declare period_loop.simps(2) [simp del]

lemma period_loop_step_written:
  assumes "snd (fetch_gradebook_data wd u p period) = Inr (Some soup)"
    and "snd (file_writerows wd w (write_data_to_csv [] soup)) = None"
  shows "period_loop wd u p (period # rest) (evs, w) =
     period_loop wd u p rest
       (evs @ fst (fetch_gradebook_data wd u p period) @ [Sleep], write_data_to_csv w soup)"
proof -
  from file_writerows_complete [OF assms(2)] assms(2)
  have "file_writerows wd w (write_data_to_csv [] soup) = (write_data_to_csv w soup, None)"
    by (simp add: prod_eq_iff write_data_to_csv_append [of w soup])
  with assms(1) show ?thesis
    by (simp add: period_loop_step_some)
qed

lemma period_loop_step_write_fails:
  assumes "snd (fetch_gradebook_data wd u p period) = Inr (Some soup)"
    and "snd (file_writerows wd w (write_data_to_csv [] soup)) = Some e"
  shows "period_loop wd u p (period # rest) (evs, w) =
     ((evs @ fst (fetch_gradebook_data wd u p period),
       fst (file_writerows wd w (write_data_to_csv [] soup))), Some e)"
  using assms
  by (cases "file_writerows wd w (write_data_to_csv [] soup)") (simp add: period_loop_step_some)

lemma period_rows_document:
  "snd (fetch_gradebook_data wd u p period) = Inr (Some soup) \<Longrightarrow>
   period_rows wd u p period = write_data_to_csv [] soup"
  by (simp add: period_rows_def)

lemma period_rows_nothing:
  "snd (fetch_gradebook_data wd u p period) = Inr None \<Longrightarrow> period_rows wd u p period = []"
  by (simp add: period_rows_def)

lemma period_loop_returns:
  "write_error wd = None \<Longrightarrow>
   \<forall>period \<in> set ps. \<exists>soup. snd (fetch_gradebook_data wd u p period) = Inr soup \<Longrightarrow>
   period_loop wd u p ps (evs, w) =
     ((evs @ concat (map (\<lambda>q. fst (fetch_gradebook_data wd u p q) @ [Sleep]) ps),
       w @ concat (map (period_rows wd u p) ps)), None)"
proof (induction ps arbitrary: evs w)
  case Nil
  show ?case by simp
next
  case (Cons period rest)
  from Cons.prems obtain soup where s: "snd (fetch_gradebook_data wd u p period) = Inr soup"
    by auto
  from Cons.prems have rest: "\<forall>q \<in> set rest. \<exists>soup. snd (fetch_gradebook_data wd u p q) = Inr soup"
    by simp
  show ?case
  proof (cases soup)
    case None
    with s show ?thesis
      by (simp add: period_loop_step_none period_rows_nothing Cons.IH [OF Cons.prems(1) rest])
  next
    case (Some doc)
    with s have d: "snd (fetch_gradebook_data wd u p period) = Inr (Some doc)" by simp
    have "snd (file_writerows wd w (write_data_to_csv [] doc)) = None"
      by (simp add: file_writerows_no_error [OF Cons.prems(1)])
    from period_loop_step_written [OF d this] show ?thesis
      by (simp add: period_rows_document [OF d] Cons.IH [OF Cons.prems(1) rest]
          write_data_to_csv_append [of w doc])
  qed
qed

lemma period_loop_writer:
  "\<exists>n k. n \<le> length ps \<and> snd (fst (period_loop wd u p ps (evs, w))) =
      w @ take k (concat (map (period_rows wd u p) (take n ps)))"
proof (induction ps arbitrary: evs w)
  case Nil
  show ?case by simp
next
  case (Cons period rest)
  show ?case
  proof (cases "snd (fetch_gradebook_data wd u p period)")
    case (Inl e)
    then have "0 \<le> length (period # rest) \<and>
        snd (fst (period_loop wd u p (period # rest) (evs, w))) =
        w @ take 0 (concat (map (period_rows wd u p) (take 0 (period # rest))))"
      by (simp add: period_loop_step_raise)
    then show ?thesis by blast
  next
    case (Inr soup)
    show ?thesis
    proof (cases soup)
      case None
      with Inr have s: "snd (fetch_gradebook_data wd u p period) = Inr None" by simp
      from Cons.IH [of "evs @ fst (fetch_gradebook_data wd u p period) @ [Sleep]" w]
      obtain n k where "n \<le> length rest"
        and "snd (fst (period_loop wd u p rest
               (evs @ fst (fetch_gradebook_data wd u p period) @ [Sleep], w))) =
             w @ take k (concat (map (period_rows wd u p) (take n rest)))"
        by blast
      then have "Suc n \<le> length (period # rest) \<and>
          snd (fst (period_loop wd u p (period # rest) (evs, w))) =
          w @ take k (concat (map (period_rows wd u p) (take (Suc n) (period # rest))))"
        by (simp add: period_loop_step_none [OF s] period_rows_nothing [OF s])
      then show ?thesis by blast
    next
      case (Some doc)
      with Inr have s: "snd (fetch_gradebook_data wd u p period) = Inr (Some doc)" by simp
      let ?rows = "write_data_to_csv [] doc"
      show ?thesis
      proof (cases "snd (file_writerows wd w ?rows)")
        case (Some e)
        from file_writerows_prefix [of wd w ?rows] obtain k
          where "fst (file_writerows wd w ?rows) = w @ take k ?rows"
          by blast
        then have "Suc 0 \<le> length (period # rest) \<and>
            snd (fst (period_loop wd u p (period # rest) (evs, w))) =
            w @ take k (concat (map (period_rows wd u p) (take (Suc 0) (period # rest))))"
          by (simp add: period_loop_step_write_fails [OF s Some] period_rows_document [OF s])
        then show ?thesis by blast
      next
        case None
        let ?evs = "evs @ fst (fetch_gradebook_data wd u p period) @ [Sleep]"
        from Cons.IH [of ?evs "write_data_to_csv w doc"]
        obtain n k where n: "n \<le> length rest"
          and "snd (fst (period_loop wd u p rest (?evs, write_data_to_csv w doc))) =
               write_data_to_csv w doc @ take k (concat (map (period_rows wd u p) (take n rest)))"
          by blast
        then have "snd (fst (period_loop wd u p (period # rest) (evs, w))) =
            w @ take (length ?rows + k)
                  (concat (map (period_rows wd u p) (take (Suc n) (period # rest))))"
          by (simp add: period_loop_step_written [OF s None] period_rows_document [OF s]
              write_data_to_csv_append [of w doc])
        with n have "Suc n \<le> length (period # rest) \<and>
            snd (fst (period_loop wd u p (period # rest) (evs, w))) =
            w @ take (length ?rows + k)
                  (concat (map (period_rows wd u p) (take (Suc n) (period # rest))))"
          by simp
        then show ?thesis by blast
      qed
    qed
  qed
qed

lemma period_loop_raises:
  "snd (period_loop wd u p ps (evs, w)) = Some e \<Longrightarrow>
   (\<exists>period \<in> set ps. snd (fetch_gradebook_data wd u p period) = Inl e) \<or>
   (\<exists>c msg. write_error wd = Some (c, msg) \<and> e = IOError msg)"
proof (induction ps arbitrary: evs w)
  case Nil
  then show ?case by simp
next
  case (Cons period rest)
  show ?case
  proof (cases "snd (fetch_gradebook_data wd u p period)")
    case (Inl e')
    with Cons.prems have "e' = e" by (simp add: period_loop_step_raise)
    with Inl show ?thesis by simp
  next
    case (Inr soup)
    show ?thesis
    proof (cases soup)
      case None
      with Inr have s: "snd (fetch_gradebook_data wd u p period) = Inr None" by simp
      from Cons.prems Cons.IH show ?thesis
        by (auto simp: period_loop_step_none [OF s])
    next
      case (Some doc)
      with Inr have s: "snd (fetch_gradebook_data wd u p period) = Inr (Some doc)" by simp
      show ?thesis
      proof (cases "snd (file_writerows wd w (write_data_to_csv [] doc))")
        case (Some e')
        with Cons.prems have "e' = e"
          by (simp add: period_loop_step_write_fails [OF s Some])
        with file_writerows_raises [OF Some] show ?thesis by blast
      next
        case None
        from Cons.prems Cons.IH show ?thesis
          by (auto simp: period_loop_step_written [OF s None])
      qed
    qed
  qed
qed



lemma periods: "[0..<REPORTING_PERIODS] = [0, 1, 2, 3]"
  by (simp add: REPORTING_PERIODS_def upt_rec)

section \<open>Properties of the export driver\<close>

lemma prompt_credentials_old_file [simp]:
  "prompt_credentials (wd\<lparr>old_file := previous\<rparr>) = prompt_credentials wd"
  by (simp add: prompt_credentials_def split: option.splits)

lemma get_credentials_old_file [simp]:
  "get_credentials (wd\<lparr>old_file := previous\<rparr>) = get_credentials wd"
  by (simp add: get_credentials_def split: option.splits)

lemma fetch_try_old_file [simp]:
  "fetch_try (wd\<lparr>old_file := previous\<rparr>) u p period = fetch_try wd u p period"
  by (simp add: fetch_try_def BeautifulSoup_def Let_def
      split: post_result.splits sum.splits option.splits)

lemma fetch_old_file [simp]:
  "fetch_gradebook_data (wd\<lparr>old_file := previous\<rparr>) u p period = fetch_gradebook_data wd u p period"
  by (simp add: fetch_gradebook_data_def)

lemma file_writerow_old_file [simp]:
  "file_writerow (wd\<lparr>old_file := previous\<rparr>) f r = file_writerow wd f r"
  by (simp add: file_writerow_def)

lemma file_writerows_old_file [simp]:
  "file_writerows (wd\<lparr>old_file := previous\<rparr>) f rs = file_writerows wd f rs"
  by (induction rs arbitrary: f) (simp_all split: sum.splits)

lemma period_loop_old_file [simp]:
  "period_loop (wd\<lparr>old_file := previous\<rparr>) u p ps st = period_loop wd u p ps st"
proof (induction ps arbitrary: st)
  case Nil
  show ?case by simp
next
  case (Cons period rest)
  obtain evs w where st: "st = (evs, w)" by (cases st)
  show ?case
    unfolding st
    by (simp add: period_loop.simps(2) Cons.IH
        split: prod.splits sum.splits option.splits)
qed

lemma main_try_old_file:
  "open_error wd = None \<Longrightarrow>
   main_try (wd\<lparr>old_file := previous\<rparr>) u p evs = main_try wd u p evs"
  by (simp add: main_try_def split: sum.splits)

lemma fetch_try_write_error [simp]:
  "fetch_try (wd\<lparr>write_error := x\<rparr>) u p period = fetch_try wd u p period"
  by (simp add: fetch_try_def BeautifulSoup_def Let_def
      split: post_result.splits sum.splits option.splits)

lemma fetch_write_error [simp]:
  "fetch_gradebook_data (wd\<lparr>write_error := x\<rparr>) u p period = fetch_gradebook_data wd u p period"
  by (simp add: fetch_gradebook_data_def)

lemma period_rows_write_error [simp]:
  "period_rows (wd\<lparr>write_error := x\<rparr>) u p period = period_rows wd u p period"
  by (simp add: period_rows_def)

lemma all_periods: "(\<forall>n < REPORTING_PERIODS. P n) \<longleftrightarrow> P 0 \<and> P 1 \<and> P 2 \<and> P 3"
proof -
  have "(\<forall>n < REPORTING_PERIODS. P n) \<longleftrightarrow> (\<forall>n \<in> set [0..<REPORTING_PERIODS]. P n)"
    by auto
  then show ?thesis
    unfolding periods by simp
qed


lemma main_try_complete:
  assumes "snd (main_try wd u p evs) = None"
  shows "\<exists>evs'. fst (fst (main_try wd u p evs)) = evs' @ [Print ExportComplete]"
  using assms
  by (auto simp: main_try_def split: option.splits sum.splits prod.splits)


lemma main_after_credentials:
  assumes "get_credentials wd = (cev, Inr (u, p))"
  shows "uncaught (main wd) = None"
    and "last (events (main wd)) =
         Print (case snd (main_try wd u p (Print Banner # cev)) of
                  None \<Rightarrow> ExportComplete | Some e \<Rightarrow> handle_main e)"
    and "grades_csv (main wd) = snd (fst (main_try wd u p (Print Banner # cev)))"
proof -
  obtain evs f r where t: "main_try wd u p (Print Banner # cev) = ((evs, f), r)"
    by (metis surj_pair)
  show "uncaught (main wd) = None"
    using assms t by (cases r) (simp_all add: main_def)
  show "grades_csv (main wd) = snd (fst (main_try wd u p (Print Banner # cev)))"
    using assms t by (cases r) (simp_all add: main_def)
  show "last (events (main wd)) =
         Print (case snd (main_try wd u p (Print Banner # cev)) of
                  None \<Rightarrow> ExportComplete | Some e \<Rightarrow> handle_main e)"
  proof (cases r)
    case None
    with t main_try_complete [of wd u p "Print Banner # cev"]
    obtain evs' where "evs = evs' @ [Print ExportComplete]" by auto
    with assms t None show ?thesis by (simp add: main_def)
  next
    case (Some e)
    with assms t show ?thesis by (simp add: main_def)
  qed
qed

lemma main_rows:
  assumes "snd (get_credentials wd) = Inr (username, password)"
    and "open_error wd = None"
  shows "\<exists>n \<le> REPORTING_PERIODS. \<exists>k. grades_csv (main wd) =
      Some (take k (csv_header #
        concat (map (period_rows wd username password) (take n [0..<REPORTING_PERIODS]))))"
proof -
  from assms(1) obtain cev where g: "get_credentials wd = (cev, Inr (username, password))"
    by (cases "get_credentials wd") simp
  let ?ps = "[0..<REPORTING_PERIODS]"
  let ?evs = "Print Banner # cev"
  note saved = main_after_credentials(3) [OF g]
  show ?thesis
  proof (cases "file_writerow wd [] csv_header")
    case (Inl e)
    with assms(2) saved
    have "0 \<le> REPORTING_PERIODS \<and> grades_csv (main wd) =
        Some (take 0 (csv_header #
          concat (map (period_rows wd username password) (take 0 ?ps))))"
      by (simp add: main_try_def)
    then show ?thesis by blast
  next
    case (Inr w)
    then have w: "w = [csv_header]"
      by (auto simp: file_writerow_def writerow_def split: option.splits if_splits)
    from period_loop_writer [of ?ps wd username password ?evs w]
    obtain n k where n: "n \<le> length ?ps"
      and l: "snd (fst (period_loop wd username password ?ps (?evs, w))) =
          w @ take k (concat (map (period_rows wd username password) (take n ?ps)))"
      by blast
    have "grades_csv (main wd) =
        Some (snd (fst (period_loop wd username password ?ps (?evs, w))))"
      using assms(2) saved Inr by (simp add: main_try_def split: prod.splits option.splits)
    moreover have "w @ take k (concat (map (period_rows wd username password) (take n ?ps))) =
        take (Suc k) (csv_header #
          concat (map (period_rows wd username password) (take n ?ps)))"
      unfolding w by simp
    ultimately have "grades_csv (main wd) =
        Some (take (Suc k) (csv_header #
          concat (map (period_rows wd username password) (take n ?ps))))"
      using l by (simp only:)
    moreover from n have "n \<le> REPORTING_PERIODS" by simp
    ultimately show ?thesis by blast
  qed
qed

lemma flattened_row:
  assumes "r \<in> set (write_data_to_csv [] soup)"
  shows "\<exists>course mark. (course, mark) \<in> set (visits soup) \<and> r \<in> set (mark_rows (course, mark))"
  using assms by (auto simp: write_data_to_csv_visits)

lemma example_encodable [simp]:
  "utf8_encodable example_world s"
  by (simp add: example_world_def)

lemma example_fetch_0:
  "fetch_gradebook_data example_world ''student'' ''secret'' 0 =
     ([Print (Requesting 1), Post ''student'' ''secret'' 0, Print (Retrieved 1)],
      Inr (Some example_soup))"
proof -
  have s: "server example_world ''student'' ''secret'' 0 = Response 200 ''envelope''"
    by (simp add: example_world_def example_server_def)
  have p: "parser example_world ''envelope'' =
      Some (Tag ''[document]'' []
          [Tag ''Envelope'' []
             [Tag ''ProcessWebServiceRequestResult'' [] [NavigableString ''gradebook'']]])"
    by (simp add: example_world_def example_parser_def)
  have f: "find_tag ''ProcessWebServiceRequestResult''
      (Tag ''[document]'' []
          [Tag ''Envelope'' []
             [Tag ''ProcessWebServiceRequestResult'' [] [NavigableString ''gradebook'']]]) =
      Some (Tag ''ProcessWebServiceRequestResult'' [] [NavigableString ''gradebook''])"
    by (simp add: find_tag_def find_all_def)
  have t: "\<not> str_contains ''ERROR''
      (get_text (Tag ''ProcessWebServiceRequestResult'' [] [NavigableString ''gradebook'']))"
    by simp
  have g: "parser example_world
      (get_text (Tag ''ProcessWebServiceRequestResult'' [] [NavigableString ''gradebook''])) =
      Some example_soup"
    by (simp add: example_world_def example_parser_def)
  from fetch_document [OF _ _ s _ p f t g] show ?thesis by simp
qed

lemma example_fetch_1:
  "fetch_gradebook_data example_world ''student'' ''secret'' 1 =
     ([Print (Requesting 2), Post ''student'' ''secret'' 1,
       Print (NetworkError 2 (ConnectionError ''timed out''))], Inr None)"
proof -
  have "server example_world ''student'' ''secret'' 1 = TransportFailure ''timed out''"
    by (simp add: example_world_def example_server_def)
  from fetch_transport_failure [OF _ _ this] show ?thesis by simp
qed

lemma example_fetch_2:
  "fetch_gradebook_data example_world ''student'' ''secret'' 2 =
     ([Print (Requesting 3), Post ''student'' ''secret'' 2,
       Print (NetworkError 3 (HTTPError 503))], Inr None)"
proof -
  have "server example_world ''student'' ''secret'' 2 = Response 503 ''unavailable''"
    by (simp add: example_world_def example_server_def)
  from fetch_http_error [OF _ _ this] show ?thesis by simp
qed

lemma example_error_envelope:
  "parser example_world ''error envelope'' =
      Some (Tag ''[document]'' []
          [Tag ''Envelope'' []
             [Tag ''ProcessWebServiceRequestResult'' [] [NavigableString ''<RT_ERROR/>'']]])"
  "find_tag ''ProcessWebServiceRequestResult''
      (Tag ''[document]'' []
          [Tag ''Envelope'' []
             [Tag ''ProcessWebServiceRequestResult'' [] [NavigableString ''<RT_ERROR/>'']]]) =
      Some (Tag ''ProcessWebServiceRequestResult'' [] [NavigableString ''<RT_ERROR/>''])"
  by (simp_all add: example_world_def example_parser_def find_tag_def find_all_def)

lemma example_fetch_3:
  "fetch_gradebook_data example_world ''student'' ''secret'' 3 =
     ([Print (Requesting 4), Post ''student'' ''secret'' 3, Print (ServerReturnedError 4)],
      Inr None)"
proof -
  have s: "server example_world ''student'' ''secret'' 3 = Response 200 ''error envelope''"
    by (simp add: example_world_def example_server_def)
  have t: "str_contains ''ERROR''
      (get_text (Tag ''ProcessWebServiceRequestResult'' [] [NavigableString ''<RT_ERROR/>'']))"
    by simp
  from fetch_error_marker [OF _ _ s _ example_error_envelope t] show ?thesis by simp
qed

lemma example_fetches_return:
  "\<forall>period < REPORTING_PERIODS.
      \<exists>soup. snd (fetch_gradebook_data example_world ''student'' ''secret'' period) = Inr soup"
  unfolding all_periods
  using example_fetch_0 example_fetch_1 example_fetch_2 example_fetch_3 by simp

lemma example_credentials:
  "get_credentials example_world = ([Print CredentialsLoaded], Inr (''student'', ''secret''))"
  by (simp add: get_credentials_def example_world_def)

lemma example_mark_rows:
  "mark_rows (example_course, example_mark) =
     [[Some ''Q1'', Some ''Algebra'', Some ''12'', Some ''Smith'', Some ''3'', Some ''95%'',
       Some ''Q1'', Some ''HW1'', Some ''Homework'', None, None, Some ''10/10'', Some ''10'',
       None]]"
proof -
  have "mark_rows (example_course, example_mark) =
      [shared_fields example_course example_mark @ assignment_fields example_assignment]"
    by (simp add: mark_rows_def write_mark_rows example_find_assignments)
  then show ?thesis
    by (simp add: shared_fields_def assignment_fields_def tag_get_def example_course_def
        example_mark_def example_assignment_def)
qed

lemma example_empty_mark_rows:
  "mark_rows (example_course, example_empty_mark) =
     [[Some ''Q2'', Some ''Algebra'', Some ''12'', Some ''Smith'', Some ''3'', None, Some ''Q2'',
       Some ''N/A'', Some ''N/A'', Some ''N/A'', Some ''N/A'', Some ''N/A'', Some ''N/A'',
       Some ''N/A'']]"
proof -
  have "mark_rows (example_course, example_empty_mark) =
      [shared_fields example_course example_empty_mark @ replicate 7 (Some ''N/A'')]"
    by (simp add: mark_rows_def write_mark_rows example_find_assignments)
  then show ?thesis
    by (simp add: shared_fields_def tag_get_def example_course_def example_empty_mark_def
        replicate_seven)
qed

lemma example_rows:
  "write_data_to_csv [] example_soup =
     [[Some ''Q1'', Some ''Algebra'', Some ''12'', Some ''Smith'', Some ''3'', Some ''95%'',
       Some ''Q1'', Some ''HW1'', Some ''Homework'', None, None, Some ''10/10'', Some ''10'',
       None],
      [Some ''Q2'', Some ''Algebra'', Some ''12'', Some ''Smith'', Some ''3'', None, Some ''Q2'',
       Some ''N/A'', Some ''N/A'', Some ''N/A'', Some ''N/A'', Some ''N/A'', Some ''N/A'',
       Some ''N/A'']]"
  by (simp add: write_data_to_csv_visits example_visits example_mark_rows
      example_empty_mark_rows)

lemma example_period_rows:
  "concat (map (period_rows example_world ''student'' ''secret'') [0..<REPORTING_PERIODS]) =
     write_data_to_csv [] example_soup"
  unfolding periods
  using example_fetch_0 example_fetch_1 example_fetch_2 example_fetch_3
  by (simp add: period_rows_def)

lemma example_main_file:
  "grades_csv (main example_world) =
     Some (csv_header # write_data_to_csv [] example_soup)"
proof -
  have ret: "\<forall>period \<in> set [0..<REPORTING_PERIODS].
      \<exists>soup. snd (fetch_gradebook_data example_world ''student'' ''secret'' period) = Inr soup"
    using example_fetches_return by simp
  have o: "open_error example_world = None" and w: "write_error example_world = None"
    by (simp_all add: example_world_def)
  show ?thesis
    by (simp add: main_after_credentials(3) [OF example_credentials] main_try_def o
        file_writerow_def w period_loop_returns [OF w ret] example_period_rows writerow_def)
qed

lemma html_fetch_0:
  "fetch_gradebook_data html_world ''student'' ''secret'' 0 =
     ([Print (Requesting 1), Post ''student'' ''secret'' 0], Inl AttributeError)"
proof -
  have e: "utf8_encodable html_world s" for s
    by (simp add: html_world_def example_world_def)
  have s: "server html_world ''student'' ''secret'' 0 = Response 200 ''<html/>''"
    by (simp add: html_world_def example_world_def)
  have p: "parser html_world ''<html/>'' = Some (Tag ''[document]'' [] [])"
    by (simp add: html_world_def example_world_def example_parser_def)
  have f: "find_tag ''ProcessWebServiceRequestResult'' (Tag ''[document]'' [] []) = None"
    by (simp add: find_tag_def find_all_def)
  from fetch_missing_result [OF e e s _ p f] show ?thesis by simp
qed

lemma html_run:
  "main html_world =
     \<lparr>events = [Print Banner, Print CredentialsLoaded, Print (Requesting 1),
                Post ''student'' ''secret'' 0, Print (UnexpectedError AttributeError)],
      grades_csv = Some [csv_header], uncaught = None\<rparr>"
proof -
  have c: "get_credentials html_world = ([Print CredentialsLoaded], Inr (''student'', ''secret''))"
    by (simp add: get_credentials_def html_world_def example_world_def)
  have o: "open_error html_world = None" and w: "write_error html_world = None"
    by (simp_all add: html_world_def example_world_def)
  show ?thesis
    by (simp add: main_def c main_try_def o w file_writerow_def writerow_def periods
        period_loop.simps(2) html_fetch_0 handle_main_def)
qed

lemma four_fail_fetches:
  "fetch_gradebook_data four_fail_world ''student'' ''secret'' 0 =
     ([Print (Requesting 1), Post ''student'' ''secret'' 0,
       Print (NetworkError 1 (ConnectionError ''timed out''))], Inr None)"
  "fetch_gradebook_data four_fail_world ''student'' ''secret'' 1 =
     ([Print (Requesting 2), Post ''student'' ''secret'' 1,
       Print (NetworkError 2 (HTTPError 503))], Inr None)"
  "fetch_gradebook_data four_fail_world ''student'' ''secret'' 2 =
     ([Print (Requesting 3), Post ''student'' ''secret'' 2, Print (ServerReturnedError 3)],
      Inr None)"
  "fetch_gradebook_data four_fail_world ''student'' ''secret'' 3 =
     ([Print (Requesting 4), Post ''student'' ''secret'' 3], Inl AttributeError)"
proof -
  have e: "utf8_encodable four_fail_world s" for s
    by (simp add: four_fail_world_def example_world_def)
  have s0: "server four_fail_world ''student'' ''secret'' 0 = TransportFailure ''timed out''"
    and s1: "server four_fail_world ''student'' ''secret'' 1 = Response 503 ''unavailable''"
    and s2: "server four_fail_world ''student'' ''secret'' 2 = Response 200 ''error envelope''"
    and s3: "server four_fail_world ''student'' ''secret'' 3 = Response 200 ''<html/>''"
    by (simp_all add: four_fail_world_def)
  have p: "parser four_fail_world = parser example_world"
    by (simp add: four_fail_world_def)
  from fetch_transport_failure [OF e e s0]
  show "fetch_gradebook_data four_fail_world ''student'' ''secret'' 0 =
     ([Print (Requesting 1), Post ''student'' ''secret'' 0,
       Print (NetworkError 1 (ConnectionError ''timed out''))], Inr None)"
    by simp
  from fetch_http_error [OF e e s1]
  show "fetch_gradebook_data four_fail_world ''student'' ''secret'' 1 =
     ([Print (Requesting 2), Post ''student'' ''secret'' 1,
       Print (NetworkError 2 (HTTPError 503))], Inr None)"
    by simp
  have t: "str_contains ''ERROR''
      (get_text (Tag ''ProcessWebServiceRequestResult'' [] [NavigableString ''<RT_ERROR/>'']))"
    by simp
  from fetch_error_marker [OF e e s2 _ _ example_error_envelope(2) t] p example_error_envelope(1)
  show "fetch_gradebook_data four_fail_world ''student'' ''secret'' 2 =
     ([Print (Requesting 3), Post ''student'' ''secret'' 2, Print (ServerReturnedError 3)],
      Inr None)"
    by simp
  have h: "parser four_fail_world ''<html/>'' = Some (Tag ''[document]'' [] [])"
    by (simp add: p example_world_def example_parser_def)
  have f: "find_tag ''ProcessWebServiceRequestResult'' (Tag ''[document]'' [] []) = None"
    by (simp add: find_tag_def find_all_def)
  from fetch_missing_result [OF e e s3 _ h f]
  show "fetch_gradebook_data four_fail_world ''student'' ''secret'' 3 =
     ([Print (Requesting 4), Post ''student'' ''secret'' 3], Inl AttributeError)"
    by simp
qed

lemma overwritten_with_header_first:
  assumes "snd (get_credentials wd) = Inr (username, password)"
    and "open_error wd = None"
    and "write_error wd = None"
  shows "(\<exists>rows. grades_csv (main wd) = Some (csv_header # rows)) \<and>
         grades_csv (main (wd\<lparr>old_file := previous\<rparr>)) = grades_csv (main wd) \<and>
         ((\<forall>period < REPORTING_PERIODS.
              snd (fetch_gradebook_data wd username password period) = Inr None) \<longrightarrow>
            grades_csv (main wd) = Some [csv_header] \<and>
            last (events (main wd)) = Print ExportComplete \<and>
            uncaught (main wd) = None)"
proof -
  from assms(1) obtain cev where g: "get_credentials wd = (cev, Inr (username, password))"
    by (cases "get_credentials wd") simp
  let ?ps = "[0..<REPORTING_PERIODS]"
  let ?evs = "Print Banner # cev"
  have t: "main_try wd username password ?evs =
      (case period_loop wd username password ?ps (?evs, [csv_header]) of
         ((evs', w'), Some e) \<Rightarrow> ((evs', Some w'), Some e)
       | ((evs', w'), None) \<Rightarrow> ((evs' @ [Print ExportComplete], Some w'), None))"
    by (simp add: main_try_def assms(2,3) file_writerow_def writerow_def)
  obtain evs w r where l: "period_loop wd username password ?ps (?evs, [csv_header]) = ((evs, w), r)"
    by (metis surj_pair)
  have saved: "grades_csv (main wd) = Some w"
    using main_after_credentials(3) [OF g] t l by (cases r) simp_all
  from period_loop_writer [of ?ps wd username password ?evs "[csv_header]"] l
  obtain n k where "w = [csv_header] @ take k (concat (map (period_rows wd username password) (take n ?ps)))"
    by auto
  with saved have first: "\<exists>rows. grades_csv (main wd) = Some (csv_header # rows)"
    by simp
  have "main (wd\<lparr>old_file := previous\<rparr>) = main wd"
    using g assms(2) by (simp add: main_def main_try_old_file)
  then have same: "grades_csv (main (wd\<lparr>old_file := previous\<rparr>)) = grades_csv (main wd)"
    by simp
  have failing: "grades_csv (main wd) = Some [csv_header] \<and>
            last (events (main wd)) = Print ExportComplete \<and>
            uncaught (main wd) = None"
    if none: "\<forall>period < REPORTING_PERIODS.
              snd (fetch_gradebook_data wd username password period) = Inr None"
  proof -
    from none have ret: "\<forall>period \<in> set ?ps.
        \<exists>soup. snd (fetch_gradebook_data wd username password period) = Inr soup"
      by simp
    from none have "\<forall>period \<in> set ?ps. period_rows wd username password period = []"
      by (simp add: period_rows_def)
    then have "concat (map (period_rows wd username password) ?ps) = []"
      by simp
    with period_loop_returns [OF assms(3) ret, of ?evs "[csv_header]"] l
    have "w = [csv_header]" and "r = None"
      by simp_all
    with saved main_after_credentials(1,2) [OF g] t l show ?thesis
      by simp
  qed
  from first same failing show ?thesis by blast
qed

lemma offline_run_completes:
  "grades_csv (main offline_world) = Some [csv_header] \<and>
   last (events (main offline_world)) = Print ExportComplete \<and>
   uncaught (main offline_world) = None \<and>
   old_file offline_world = Some [[Some ''old row'']]"
proof -
  have c: "snd (get_credentials offline_world) = Inr (''student'', ''secret'')"
    by (simp add: get_credentials_def offline_world_def example_world_def)
  have o: "open_error offline_world = None" and w: "write_error offline_world = None"
    by (simp_all add: offline_world_def example_world_def)
  have e: "utf8_encodable offline_world s" for s
    by (simp add: offline_world_def example_world_def)
  have "server offline_world ''student'' ''secret'' period = TransportFailure ''unreachable''"
    for period
    by (simp add: offline_world_def)
  from fetch_transport_failure [OF e e this]
  have f: "\<forall>period < REPORTING_PERIODS.
      snd (fetch_gradebook_data offline_world ''student'' ''secret'' period) = Inr None"
    by simp
  have "old_file offline_world = Some [[Some ''old row'']]"
    by (simp add: offline_world_def example_world_def)
  with overwritten_with_header_first [OF c o w] f show ?thesis
    by simp
qed

section \<open>The credential provider\<close>

text \<open>
  Claim C5. When both configured values are present and non-empty, \<open>get_credentials\<close>
  returns that pair at once: its only action is the message that the credentials were
  loaded, and neither the username prompt nor the password prompt is invoked. When either
  value is absent or empty, it prompts: the username prompt always comes, the password
  prompt follows once the username prompt has returned, and the pair typed at the prompts
  is the result (a value found in the configuration is not used).
\<close>

theorem credentials_from_configuration_or_prompt:
  "(getenv_username wd = Some username \<and> username \<noteq> [] \<and>
    getenv_password wd = Some password \<and> password \<noteq> [] \<longrightarrow>
      get_credentials wd = ([Print CredentialsLoaded], Inr (username, password)) \<and>
      Input \<notin> set (fst (get_credentials wd)) \<and> Getpass \<notin> set (fst (get_credentials wd))) \<and>
   (\<not> (truthy (getenv_username wd) \<and> truthy (getenv_password wd)) \<longrightarrow>
      take 2 (fst (get_credentials wd)) = [Print NoEnvFile, Input] \<and>
      (stdin_username wd = Some typed \<longrightarrow>
         fst (get_credentials wd) = [Print NoEnvFile, Input, Getpass] \<and>
         (stdin_password wd = Some hidden \<longrightarrow> snd (get_credentials wd) = Inr (typed, hidden))))"
  by (cases "getenv_username wd"; cases "getenv_password wd")
     (auto simp: get_credentials_def prompt_credentials_def split: option.splits)

theorem credentials_from_configuration_or_prompt_witness:
  "get_credentials example_world = ([Print CredentialsLoaded], Inr (''student'', ''secret'')) \<and>
   get_credentials prompt_world = ([Print NoEnvFile, Input, Getpass], Inr (''typed'', ''hidden''))"
  using credentials_from_configuration_or_prompt [of example_world "''student''" "''secret''"]
    credentials_from_configuration_or_prompt [of prompt_world _ _ "''typed''" "''hidden''"]
  by (simp add: example_world_def prompt_world_def prod_eq_iff)

section \<open>The error marker\<close>

text \<open>
  Claim C4. When the request succeeds (the POST is made, the response has a status that
  \<open>raise_for_status\<close> accepts, and its result element is found) and the text of the
  result element contains \<open>ERROR\<close> anywhere, the fetch returns \<open>None\<close> for that period,
  the period adds no row, and the loop goes on to the next period. The parser is arbitrary
  and is never asked about the payload, so the rest of the payload may or may not be
  well-formed.
\<close>

theorem error_marker_means_no_data:
  assumes "utf8_encodable wd username" and "utf8_encodable wd password"
    and "server wd username password period = Response status content"
    and "raise_for_status status = Inr ()"
    and "parser wd content = Some soup"
    and "find_tag ''ProcessWebServiceRequestResult'' soup = Some result"
    and "get_text result = before @ ''ERROR'' @ after"
  shows "snd (fetch_gradebook_data wd username password period) = Inr None \<and>
         period_rows wd username password period = [] \<and>
         period_loop wd username password [period] (evs, w) =
           ((evs @ fst (fetch_gradebook_data wd username password period) @ [Sleep], w), None)"
proof -
  from assms(4) have ok: "\<not> (400 \<le> status \<and> status < 600)"
    by (simp add: raise_for_status_def split: if_splits)
  from assms(7) have "str_contains ''ERROR'' (get_text result)"
    unfolding str_contains_iff by blast
  from fetch_error_marker [OF assms(1,2,3) ok assms(5,6) this]
  have f: "snd (fetch_gradebook_data wd username password period) = Inr None" by simp
  then show ?thesis
    by (simp add: period_rows_def period_loop_step_none)
qed

theorem error_marker_means_no_data_witness:
  "period_loop example_world ''student'' ''secret'' [3] ([], [csv_header]) =
     (([Print (Requesting 4), Post ''student'' ''secret'' 3, Print (ServerReturnedError 4), Sleep],
       [csv_header]), None)"
proof -
  have 1: "server example_world ''student'' ''secret'' 3 = Response 200 ''error envelope''"
    by (simp add: example_world_def example_server_def)
  have 2: "raise_for_status 200 = Inr ()"
    by (simp add: raise_for_status_def)
  have 4: "get_text (Tag ''ProcessWebServiceRequestResult'' [] [NavigableString ''<RT_ERROR/>'']) =
      ''<RT_'' @ ''ERROR'' @ ''/>''"
    by simp
  from error_marker_means_no_data
    [OF example_encodable example_encodable 1 2 example_error_envelope 4, of "[]" "[csv_header]"]
    example_fetch_3
  show ?thesis by simp
qed

section \<open>A response without a result element\<close>

text \<open>
  Claim C1, at an input where it fails. The server answers period 0 with status 200 and a
  body that has no \<open>ProcessWebServiceRequestResult\<close> element. \<open>soup.find\<close> returns
  \<open>None\<close>, \<open>.text\<close> raises \<open>AttributeError\<close>, and the handler for
  \<open>RequestException\<close> lets it through: the fetch raises instead of returning \<open>None\<close>.
  The exception ends the period loop, \<open>main\<close> reports it as an unexpected error, and
  periods 1 to 3, for which the server has a gradebook, are never requested.
\<close>

theorem extraction_failure_aborts_run:
  "fetch_gradebook_data html_world ''student'' ''secret'' 0 =
     ([Print (Requesting 1), Post ''student'' ''secret'' 0], Inl AttributeError) \<and>
   main html_world =
     \<lparr>events = [Print Banner, Print CredentialsLoaded, Print (Requesting 1),
                Post ''student'' ''secret'' 0, Print (UnexpectedError AttributeError)],
      grades_csv = Some [csv_header], uncaught = None\<rparr>"
  using html_fetch_0 html_run by simp

section \<open>The output file\<close>

text \<open>
  Claim C6, at an input where it fails. All four fetches fail: no connection for period
  0, status 503 for period 1, the error element for period 2, and for period 3 a response
  with status 200 and no \<open>ProcessWebServiceRequestResult\<close> element. The first three
  return \<open>None\<close> and the loop goes on; the fourth raises \<open>AttributeError\<close> out of the
  fetch. The file holds the header row only, but the run ends with the message for an
  unexpected error, not with the completion message.
\<close>

theorem failing_fetches_without_completion:
  "main four_fail_world =
     \<lparr>events =
        [Print Banner, Print CredentialsLoaded,
         Print (Requesting 1), Post ''student'' ''secret'' 0,
         Print (NetworkError 1 (ConnectionError ''timed out'')), Sleep,
         Print (Requesting 2), Post ''student'' ''secret'' 1,
         Print (NetworkError 2 (HTTPError 503)), Sleep,
         Print (Requesting 3), Post ''student'' ''secret'' 2,
         Print (ServerReturnedError 3), Sleep,
         Print (Requesting 4), Post ''student'' ''secret'' 3,
         Print (UnexpectedError AttributeError)],
      grades_csv = Some [csv_header], uncaught = None\<rparr>"
proof -
  have c: "get_credentials four_fail_world =
      ([Print CredentialsLoaded], Inr (''student'', ''secret''))"
    by (simp add: get_credentials_def four_fail_world_def example_world_def)
  have o: "open_error four_fail_world = None" and w: "write_error four_fail_world = None"
    by (simp_all add: four_fail_world_def example_world_def)
  show ?thesis
    using four_fail_fetches
    by (simp add: main_def c main_try_def o w file_writerow_def writerow_def periods
        period_loop.simps(2) handle_main_def)
qed

section \<open>Which errors \<open>main\<close> reports\<close>




section \<open>Marks without assignments\<close>

text \<open>
  Claim C9. For a mark with no \<open>Assignment\<close> element, the loop body writes one row of
  14 fields whose last seven fields, the ones under the headers Assignment, Type,
  Date Assigned, Date Due, Score, Points and Notes, are each the literal string \<open>N/A\<close>.
\<close>

theorem placeholder_is_NA:
  assumes "find_all ''Assignment'' mark = []"
  shows "\<exists>r. write_mark w course mark = w @ [r] \<and> length r = 14 \<and>
             drop 7 r = replicate 7 (Some ''N/A'') \<and>
             drop 7 csv_header =
               [Some ''Assignment'', Some ''Type'', Some ''Date Assigned'', Some ''Date Due'',
                Some ''Score'', Some ''Points'', Some ''Notes'']"
proof -
  have "write_mark w course mark = w @ [shared_fields course mark @ replicate 7 (Some ''N/A'')]"
    using assms by (simp add: write_mark_rows)
  moreover have "drop 7 csv_header =
               [Some ''Assignment'', Some ''Type'', Some ''Date Assigned'', Some ''Date Due'',
                Some ''Score'', Some ''Points'', Some ''Notes'']"
    by (simp add: csv_header_def)
  ultimately show ?thesis by simp
qed

theorem placeholder_is_NA_witness:
  "write_mark [] example_course example_empty_mark =
     [[Some ''Q2'', Some ''Algebra'', Some ''12'', Some ''Smith'', Some ''3'', None, Some ''Q2'',
       Some ''N/A'', Some ''N/A'', Some ''N/A'', Some ''N/A'', Some ''N/A'', Some ''N/A'',
       Some ''N/A'']]"
proof -
  from placeholder_is_NA [OF example_find_assignments(2), of "[]" example_course]
  obtain r where r: "write_mark [] example_course example_empty_mark = [r]"
    by auto
  have "write_mark [] example_course example_empty_mark =
      [shared_fields example_course example_empty_mark @ replicate 7 (Some ''N/A'')]"
    by (simp add: write_mark_rows example_find_assignments)
  then show ?thesis
    using r by (simp add: shared_fields_def tag_get_def example_course_def example_empty_mark_def
        replicate_seven)
qed

text \<open>
  Claim C2. Take any iteration of the two outer loops, the \<open>i\<close>-th, at a mark without
  \<open>Assignment\<close> elements. The rows written for the document are then the rows of the
  iterations before it, exactly one row for this mark, and the rows of the iterations after
  it; that row holds the mark's and the course's fields followed by the placeholder in all
  seven assignment fields. In a document of the gradebook shape the iterations are the
  \<open>Mark\<close> elements of the document, each once, in document order.
\<close>

theorem mark_without_assignments_gives_one_row:
  assumes "i < length (visits soup)"
    and "visits soup ! i = (course, mark)"
    and "find_all ''Assignment'' mark = []"
  shows "write_data_to_csv w soup =
           w @ concat (map mark_rows (take i (visits soup))) @
           [shared_fields course mark @ replicate 7 (Some ''N/A'')] @
           concat (map mark_rows (drop (Suc i) (visits soup))) \<and>
         (gradebook_shaped soup \<longrightarrow> map snd (visits soup) = find_all ''Mark'' soup)"
proof -
  have "mark_rows (visits soup ! i) = [shared_fields course mark @ replicate 7 (Some ''N/A'')]"
    using assms(2,3) by (simp add: mark_rows_def write_mark_rows)
  with visit_split [OF assms(1), of w] shaped_visits(1) [of soup] show ?thesis
    by simp
qed

theorem mark_without_assignments_gives_one_row_witness:
  "write_data_to_csv [] example_soup =
     mark_rows (example_course, example_mark) @
     [[Some ''Q2'', Some ''Algebra'', Some ''12'', Some ''Smith'', Some ''3'', None, Some ''Q2'',
       Some ''N/A'', Some ''N/A'', Some ''N/A'', Some ''N/A'', Some ''N/A'', Some ''N/A'',
       Some ''N/A'']] \<and>
   map snd (visits example_soup) = find_all ''Mark'' example_soup"
proof -
  have 1: "1 < length (visits example_soup)"
    by (simp add: example_visits)
  have 2: "visits example_soup ! 1 = (example_course, example_empty_mark)"
    by (simp add: example_visits)
  have 3: "shared_fields example_course example_empty_mark @ replicate 7 (Some ''N/A'') =
     [Some ''Q2'', Some ''Algebra'', Some ''12'', Some ''Smith'', Some ''3'', None, Some ''Q2'',
       Some ''N/A'', Some ''N/A'', Some ''N/A'', Some ''N/A'', Some ''N/A'', Some ''N/A'',
       Some ''N/A'']"
    by (simp add: shared_fields_def tag_get_def example_course_def example_empty_mark_def
        replicate_seven)
  from mark_without_assignments_gives_one_row [OF 1 2 example_find_assignments(2), of "[]"]
    example_shaped
  show ?thesis
    by (simp add: example_visits 3)
qed

section \<open>Marks with assignments\<close>

text \<open>
  Claim C3. Take any iteration of the two outer loops, the \<open>i\<close>-th, at a mark with
  \<open>N \<ge> 1\<close> \<open>Assignment\<close> elements. The rows written for the document are the rows of
  the iterations before it, exactly \<open>N\<close> rows for this mark, and the rows of the
  iterations after it. The \<open>j\<close>-th of the \<open>N\<close> rows starts with the seven course and
  mark fields, the same in each row, and ends with the seven fields of the \<open>j\<close>-th
  assignment in document order. In a document of the gradebook shape the iterations are
  the \<open>Mark\<close> elements of the document, each once, the assignments of the marks are the
  \<open>Assignment\<close> elements of the document, each once, and the number of rows is the number
  of assignments plus the number of marks without one: every assignment has exactly one
  row, and every row belongs to one mark of one course.
\<close>

theorem mark_with_assignments_gives_one_row_each:
  assumes "i < length (visits soup)"
    and "visits soup ! i = (course, mark)"
    and "find_all ''Assignment'' mark = assignments"
    and "1 \<le> length assignments"
  shows "write_data_to_csv w soup =
           w @ concat (map mark_rows (take i (visits soup))) @
           map (\<lambda>a. shared_fields course mark @ assignment_fields a) assignments @
           concat (map mark_rows (drop (Suc i) (visits soup))) \<and>
         length (mark_rows (course, mark)) = length assignments \<and>
         (\<forall>j < length assignments.
            take 7 (mark_rows (course, mark) ! j) = shared_fields course mark \<and>
            drop 7 (mark_rows (course, mark) ! j) = assignment_fields (assignments ! j)) \<and>
         (gradebook_shaped soup \<longrightarrow>
            map snd (visits soup) = find_all ''Mark'' soup \<and>
            concat (map (find_all ''Assignment'') (find_all ''Mark'' soup)) =
              find_all ''Assignment'' soup \<and>
            length (write_data_to_csv [] soup) =
              length (find_all ''Assignment'' soup) +
              length (filter (\<lambda>m. find_all ''Assignment'' m = []) (find_all ''Mark'' soup)))"
proof -
  from assms(4) have ne: "assignments \<noteq> []" by auto
  have rows: "mark_rows (course, mark) =
      map (\<lambda>a. shared_fields course mark @ assignment_fields a) assignments"
    using assms(3) ne by (simp add: mark_rows_def write_mark_rows)
  have whole: "write_data_to_csv w soup =
           w @ concat (map mark_rows (take i (visits soup))) @
           map (\<lambda>a. shared_fields course mark @ assignment_fields a) assignments @
           concat (map mark_rows (drop (Suc i) (visits soup)))"
    using visit_split [OF assms(1), of w] assms(2) rows by simp
  have len: "length (mark_rows (course, mark)) = length assignments"
    by (simp add: rows)
  have each: "\<forall>j < length assignments.
            take 7 (mark_rows (course, mark) ! j) = shared_fields course mark \<and>
            drop 7 (mark_rows (course, mark) ! j) = assignment_fields (assignments ! j)"
    by (simp add: rows)
  have shaped: "map snd (visits soup) = find_all ''Mark'' soup \<and>
            concat (map (find_all ''Assignment'') (find_all ''Mark'' soup)) =
              find_all ''Assignment'' soup \<and>
            length (write_data_to_csv [] soup) =
              length (find_all ''Assignment'' soup) +
              length (filter (\<lambda>m. find_all ''Assignment'' m = []) (find_all ''Mark'' soup))"
    if "gradebook_shaped soup"
    using shaped_visits [OF that] length_flattened [of soup] by simp
  from whole len each shaped show ?thesis by blast
qed

theorem mark_with_assignments_gives_one_row_each_witness:
  "write_data_to_csv [] example_soup =
     [[Some ''Q1'', Some ''Algebra'', Some ''12'', Some ''Smith'', Some ''3'', Some ''95%'',
       Some ''Q1'', Some ''HW1'', Some ''Homework'', None, None, Some ''10/10'', Some ''10'',
       None]] @
     mark_rows (example_course, example_empty_mark) \<and>
   length (write_data_to_csv [] example_soup) = 2"
proof -
  have 1: "0 < length (visits example_soup)"
    by (simp add: example_visits)
  have 2: "visits example_soup ! 0 = (example_course, example_mark)"
    by (simp add: example_visits)
  have 3: "1 \<le> length [example_assignment]"
    by simp
  have 4: "shared_fields example_course example_mark @ assignment_fields example_assignment =
     [Some ''Q1'', Some ''Algebra'', Some ''12'', Some ''Smith'', Some ''3'', Some ''95%'',
       Some ''Q1'', Some ''HW1'', Some ''Homework'', None, None, Some ''10/10'', Some ''10'',
       None]"
    by (simp add: shared_fields_def assignment_fields_def tag_get_def example_course_def
        example_mark_def example_assignment_def)
  have 5: "find_all ''Mark'' example_soup = [example_mark, example_empty_mark]"
    using shaped_visits(1) [OF example_shaped] by (simp add: example_visits)
  have 6: "find_all ''Assignment'' example_soup = [example_assignment]"
    using shaped_visits(2) [OF example_shaped] by (simp add: 5 example_find_assignments)
  from mark_with_assignments_gives_one_row_each
    [OF 1 2 example_find_assignments(1) 3, of "[]"] example_shaped
  show ?thesis
    by (simp add: example_visits 4 5 6 example_find_assignments length_mark_rows)
qed

section \<open>Missing attributes\<close>

text \<open>
  Claim C7. Every row written for a document belongs to one iteration (course, mark), and
  each of its fields is the result of \<open>get\<close> on the course, the mark or one assignment of
  the mark (or the placeholder): the seven course and mark fields first, then the seven
  assignment fields. \<open>get\<close> is \<open>None\<close> exactly when the element has no such attribute,
  so a missing attribute gives \<open>None\<close> in its field. The flattener has no failing step of
  its own: whenever the fetch returns a document, whatever its elements lack, the period
  ends without an exception and with the document's rows written if the file takes the
  rows, and the only exception the period can end with is the \<open>OSError\<close> of a write.
\<close>

theorem missing_attributes_give_None:
  assumes "r \<in> set (write_data_to_csv [] soup)"
  shows "(\<exists>course mark. (course, mark) \<in> set (visits soup) \<and>
            take 7 r =
              [tag_get mark ''MarkName'', tag_get course ''Title'', tag_get course ''Room'',
               tag_get course ''Staff'', tag_get course ''Period'',
               tag_get mark ''CalculatedScoreString'', tag_get mark ''MarkName''] \<and>
            (drop 7 r = replicate 7 (Some ''N/A'') \<or>
             (\<exists>a \<in> set (find_all ''Assignment'' mark).
                drop 7 r =
                  [tag_get a ''Measure'', tag_get a ''Type'', tag_get a ''Date'',
                   tag_get a ''DueDate'', tag_get a ''Score'', tag_get a ''Points'',
                   tag_get a ''Notes'']))) \<and>
         (tag_get (Tag n a cs) key = None \<longleftrightarrow> key \<notin> fst ` set a) \<and>
         (snd (fetch_gradebook_data wd username password period) = Inr (Some soup) \<longrightarrow>
            (write_error wd = None \<longrightarrow>
               period_loop wd username password [period] (evs, w) =
                 ((evs @ fst (fetch_gradebook_data wd username password period) @ [Sleep],
                   write_data_to_csv w soup), None)) \<and>
            (\<forall>e. snd (period_loop wd username password [period] (evs, w)) = Some e \<longrightarrow>
               (\<exists>c msg. write_error wd = Some (c, msg) \<and> e = IOError msg)))"
proof -
  from flattened_row [OF assms] obtain course mark
    where v: "(course, mark) \<in> set (visits soup)" and r: "r \<in> set (mark_rows (course, mark))"
    by blast
  from mark_rows_cases [OF r]
  have "take 7 r = shared_fields course mark \<and>
        (drop 7 r = replicate 7 (Some ''N/A'') \<or>
         (\<exists>a \<in> set (find_all ''Assignment'' mark). drop 7 r = assignment_fields a))"
    by auto
  with v have rows: "\<exists>course mark. (course, mark) \<in> set (visits soup) \<and>
            take 7 r =
              [tag_get mark ''MarkName'', tag_get course ''Title'', tag_get course ''Room'',
               tag_get course ''Staff'', tag_get course ''Period'',
               tag_get mark ''CalculatedScoreString'', tag_get mark ''MarkName''] \<and>
            (drop 7 r = replicate 7 (Some ''N/A'') \<or>
             (\<exists>a \<in> set (find_all ''Assignment'' mark).
                drop 7 r =
                  [tag_get a ''Measure'', tag_get a ''Type'', tag_get a ''Date'',
                   tag_get a ''DueDate'', tag_get a ''Score'', tag_get a ''Points'',
                   tag_get a ''Notes'']))"
    unfolding shared_fields_def assignment_fields_def by blast
  have absent: "tag_get (Tag n a cs) key = None \<longleftrightarrow> key \<notin> fst ` set a"
    by (simp add: tag_get_def map_of_eq_None_iff)
  have written: "period_loop wd username password [period] (evs, w) =
              ((evs @ fst (fetch_gradebook_data wd username password period) @ [Sleep],
                write_data_to_csv w soup), None)"
    if f: "snd (fetch_gradebook_data wd username password period) = Inr (Some soup)"
      and n: "write_error wd = None"
  proof -
    have "snd (file_writerows wd w (write_data_to_csv [] soup)) = None"
      by (simp add: file_writerows_no_error [OF n])
    from period_loop_step_written [OF f this] show ?thesis by simp
  qed
  have only: "\<exists>c msg. write_error wd = Some (c, msg) \<and> e = IOError msg"
    if f: "snd (fetch_gradebook_data wd username password period) = Inr (Some soup)"
      and e: "snd (period_loop wd username password [period] (evs, w)) = Some e" for e
    using period_loop_raises [OF e] f by simp
  from rows absent written only show ?thesis by blast
qed

theorem missing_attributes_give_None_witness:
  "tag_get example_assignment ''Notes'' = None \<and>
   tag_get example_empty_mark ''CalculatedScoreString'' = None \<and>
   write_data_to_csv [] example_soup ! 0 ! 13 = None \<and>
   write_data_to_csv [] example_soup ! 1 ! 5 = None \<and>
   period_loop example_world ''student'' ''secret'' [0] ([], []) =
     (([Print (Requesting 1), Post ''student'' ''secret'' 0, Print (Retrieved 1), Sleep],
       write_data_to_csv [] example_soup), None) \<and>
   snd (period_loop full_disk_world ''student'' ''secret'' [0] ([], [csv_header])) =
     Some (IOError ''No space left on device'')"
proof -
  have 1: "write_data_to_csv [] example_soup ! 0 \<in> set (write_data_to_csv [] example_soup)"
    by (simp add: example_rows)
  have 2: "snd (fetch_gradebook_data example_world ''student'' ''secret'' 0) =
      Inr (Some example_soup)"
    by (simp add: example_fetch_0)
  have 3: "''Notes'' \<notin> fst ` set [(''Measure'', ''HW1''), (''Type'', ''Homework''),
      (''Score'', ''10/10''), (''Points'', ''10'')]"
    by simp
  have 4: "tag_get example_empty_mark ''CalculatedScoreString'' = None"
    by (simp add: tag_get_def example_empty_mark_def)
  have 5: "write_error example_world = None"
    by (simp add: example_world_def)
  from missing_attributes_give_None [OF 1, of "''Assignment''"
      "[(''Measure'', ''HW1''), (''Type'', ''Homework''), (''Score'', ''10/10''), (''Points'', ''10'')]"
      "[]" "''Notes''" example_world "''student''" "''secret''" 0 "[]" "[]"] 2 3 5
  have a: "tag_get example_assignment ''Notes'' = None"
    and b: "period_loop example_world ''student'' ''secret'' [0] ([], []) =
     (([Print (Requesting 1), Post ''student'' ''secret'' 0, Print (Retrieved 1), Sleep],
       write_data_to_csv [] example_soup), None)"
    by (simp_all add: example_assignment_def example_fetch_0)
  have 6: "fetch_gradebook_data full_disk_world ''student'' ''secret'' 0 =
      ([Print (Requesting 1), Post ''student'' ''secret'' 0, Print (Retrieved 1)],
       Inr (Some example_soup))"
    using example_fetch_0 by (simp add: full_disk_world_def)
  have 7: "write_error full_disk_world = Some (1, ''No space left on device'')"
    by (simp add: full_disk_world_def)
  have "snd (file_writerows full_disk_world [csv_header] (write_data_to_csv [] example_soup)) =
      Some (IOError ''No space left on device'')"
    using file_writerows_capacity [OF 7, of "[csv_header]" "write_data_to_csv [] example_soup"]
    by (simp add: example_rows)
  then have 8: "snd (period_loop full_disk_world ''student'' ''secret'' [0] ([], [csv_header])) =
      Some (IOError ''No space left on device'')"
    using 6 by (simp add: period_loop_step_write_fails [of full_disk_world _ _ 0 example_soup])
  from missing_attributes_give_None [OF 1, of _ _ _ _ full_disk_world "''student''" "''secret''"
      0 "[]" "[csv_header]"] 6 8
  have c: "\<exists>c msg. write_error full_disk_world = Some (c, msg) \<and>
      IOError ''No space left on device'' = IOError msg"
    by simp
  from a b c 4 8 show ?thesis
    by (simp add: example_rows)
qed

section \<open>The Quarter column\<close>

text \<open>
  Claim C10. Every data row of the file written by a run has 14 fields, and its first
  field (under the header Quarter) equals its seventh (under the header Mark): both are
  the \<open>MarkName\<close> of the mark of the row. The row comes from the document fetched for
  some period, and every field of it is the placeholder or the result of \<open>get\<close> on that
  row's course, mark or assignments: no field is taken from the period index of the fetch.
\<close>

theorem quarter_column_is_mark_name:
  assumes "snd (get_credentials wd) = Inr (username, password)"
    and "open_error wd = None"
    and "grades_csv (main wd) = Some (header # rows)"
    and "r \<in> set rows"
  shows "length r = 14 \<and> r ! 0 = r ! 6 \<and>
         (\<exists>period < REPORTING_PERIODS. \<exists>soup course mark.
            snd (fetch_gradebook_data wd username password period) = Inr (Some soup) \<and>
            (course, mark) \<in> set (visits soup) \<and>
            r ! 0 = tag_get mark ''MarkName'' \<and>
            (\<forall>f \<in> set r. f = Some ''N/A'' \<or>
               (\<exists>e \<in> {course, mark} \<union> set (find_all ''Assignment'' mark).
                  \<exists>key. f = tag_get e key)))"
proof -
  from main_rows [OF assms(1,2)] assms(3) obtain n k
    where eq: "header # rows = take k (csv_header #
        concat (map (period_rows wd username password) (take n [0..<REPORTING_PERIODS])))"
    by auto
  have "set rows \<subseteq> set (concat (map (period_rows wd username password)
                                  (take n [0..<REPORTING_PERIODS])))"
  proof (cases k)
    case 0
    with eq show ?thesis by simp
  next
    case (Suc k')
    with eq have "rows = take k' (concat (map (period_rows wd username password)
                                  (take n [0..<REPORTING_PERIODS])))"
      by simp
    then show ?thesis
      by (metis set_take_subset)
  qed
  with assms(4) obtain period where p: "period \<in> set (take n [0..<REPORTING_PERIODS])"
    and rp: "r \<in> set (period_rows wd username password period)"
    by auto
  from p have "period \<in> set [0..<REPORTING_PERIODS]"
    by (rule in_set_takeD)
  then have lt: "period < REPORTING_PERIODS" by simp
  from rp have "\<exists>soup. snd (fetch_gradebook_data wd username password period) = Inr (Some soup) \<and>
      r \<in> set (write_data_to_csv [] soup)"
    by (simp add: period_rows_def split: sum.splits option.splits) metis
  then obtain soup
    where f: "snd (fetch_gradebook_data wd username password period) = Inr (Some soup)"
      and rs: "r \<in> set (write_data_to_csv [] soup)"
    by blast
  from flattened_row [OF rs] obtain course mark
    where v: "(course, mark) \<in> set (visits soup)" and rm: "r \<in> set (mark_rows (course, mark))"
    by blast
  let ?from_doc = "\<lambda>f. f = Some ''N/A'' \<or>
               (\<exists>e \<in> {course, mark} \<union> set (find_all ''Assignment'' mark).
                  \<exists>key. f = tag_get e key)"
  have shared: "\<forall>f \<in> set (shared_fields course mark). ?from_doc f"
    unfolding shared_fields_def by auto
  have r: "length r = 14 \<and> r ! 0 = r ! 6 \<and> r ! 0 = tag_get mark ''MarkName'' \<and>
      (\<forall>f \<in> set r. ?from_doc f)"
    using mark_rows_cases [OF rm]
  proof
    assume e: "r = shared_fields course mark @ replicate 7 (Some ''N/A'')"
    have "\<forall>f \<in> set r. ?from_doc f"
      unfolding e using shared by auto
    moreover have "length r = 14 \<and> r ! 0 = r ! 6 \<and> r ! 0 = tag_get mark ''MarkName''"
      unfolding e by (simp add: shared_fields_def)
    ultimately show ?thesis by blast
  next
    assume "\<exists>a \<in> set (find_all ''Assignment'' mark).
        r = shared_fields course mark @ assignment_fields a"
    then obtain a where a: "a \<in> set (find_all ''Assignment'' mark)"
      and e: "r = shared_fields course mark @ assignment_fields a"
      by blast
    have "\<forall>f \<in> set (assignment_fields a). ?from_doc f"
      unfolding assignment_fields_def using a by auto
    then have "\<forall>f \<in> set r. ?from_doc f"
      unfolding e using shared by auto
    moreover have "length r = 14 \<and> r ! 0 = r ! 6 \<and> r ! 0 = tag_get mark ''MarkName''"
      unfolding e by (simp add: shared_fields_def)
    ultimately show ?thesis by blast
  qed
  with lt f v show ?thesis by blast
qed

theorem quarter_column_is_mark_name_witness:
  "grades_csv (main example_world) =
     Some [csv_header,
      [Some ''Q1'', Some ''Algebra'', Some ''12'', Some ''Smith'', Some ''3'', Some ''95%'',
       Some ''Q1'', Some ''HW1'', Some ''Homework'', None, None, Some ''10/10'', Some ''10'',
       None],
      [Some ''Q2'', Some ''Algebra'', Some ''12'', Some ''Smith'', Some ''3'', None, Some ''Q2'',
       Some ''N/A'', Some ''N/A'', Some ''N/A'', Some ''N/A'', Some ''N/A'', Some ''N/A'',
       Some ''N/A'']] \<and>
   write_data_to_csv [] example_soup ! 0 ! 0 = write_data_to_csv [] example_soup ! 0 ! 6"
proof -
  have c: "snd (get_credentials example_world) = Inr (''student'', ''secret'')"
    by (simp add: example_credentials)
  have o: "open_error example_world = None"
    by (simp add: example_world_def)
  have m: "grades_csv (main example_world) =
      Some (csv_header # write_data_to_csv [] example_soup)"
    by (rule example_main_file)
  have r: "write_data_to_csv [] example_soup ! 0 \<in> set (write_data_to_csv [] example_soup)"
    by (simp add: example_rows)
  from quarter_column_is_mark_name [OF c o m r]
  have "write_data_to_csv [] example_soup ! 0 ! 0 = write_data_to_csv [] example_soup ! 0 ! 6"
    by blast
  with m show ?thesis
    by (simp add: example_rows)
qed

end
